theory Spec2Isabelle
  imports Complex_Main "HOL-Library.Sublist"
begin

section \<open>Strings and paths of the Python runtime\<close>

text \<open>
  \<^verbatim>\<open>str.split(sep)\<close> with a one-character separator: the empty string gives one empty
  field, and every separator starts a new field.
\<close>

fun split_on :: "char \<Rightarrow> string \<Rightarrow> string list" where
  "split_on sep [] = [[]]"
| "split_on sep (c # cs) =
     (if c = sep then [] # split_on sep cs
      else (case split_on sep cs of [] \<Rightarrow> [[c]] | w # ws \<Rightarrow> (c # w) # ws))"

text \<open>
  \<^verbatim>\<open>posixpath.join\<close>: an absolute component replaces what came before, otherwise one
  separator is put between the components unless the left one is empty or already ends
  with it. With three arguments the rule is applied from the left.
\<close>

definition path_join :: "string \<Rightarrow> string \<Rightarrow> string" where
  "path_join a b =
     (if take 1 b = ''/'' then b
      else if a = [] \<or> take 1 (rev a) = ''/'' then a @ b
      else a @ ''/'' @ b)"

text \<open>\<^verbatim>\<open>posixpath.basename(p)\<close> is \<^verbatim>\<open>p[p.rfind('/') + 1:]\<close>.\<close>

definition basename :: "string \<Rightarrow> string" where
  "basename p = rev (takeWhile (\<lambda>c. c \<noteq> CHR ''/'') (rev p))"

text \<open>
  The first component of \<^verbatim>\<open>posixpath.splitext(p)\<close> for a \<open>p\<close> without separator (it is
  only applied to a basename): the text before the last dot, provided a character other
  than a dot stands before that dot; otherwise all of \<open>p\<close>.
\<close>

definition splitext_root :: "string \<Rightarrow> string" where
  "splitext_root p =
     (if CHR ''.'' \<notin> set p then p
      else (let root = rev (tl (dropWhile (\<lambda>c. c \<noteq> CHR ''.'') (rev p)))
            in if filter (\<lambda>c. c \<noteq> CHR ''.'') root \<noteq> [] then root else p))"

definition basename_without_ext :: "string \<Rightarrow> string" where
  "basename_without_ext file = splitext_root (basename file)"

text \<open>\<^verbatim>\<open>str(n)\<close> for Python's unbounded integers, in decimal.\<close>

definition digit_char :: "nat \<Rightarrow> char" where
  "digit_char d = ''0123456789'' ! (d mod 10)"

fun str_nat :: "nat \<Rightarrow> string" where
  "str_nat n = (if n < 10 then [digit_char n] else str_nat (n div 10) @ [digit_char n])"

declare str_nat.simps [simp del]

definition str_int :: "int \<Rightarrow> string" where
  "str_int i = (if i < 0 then CHR ''-'' # str_nat (nat (- i)) else str_nat (nat i))"

text \<open>
  \<^verbatim>\<open>template.format(arg)\<close> for the per-route file templates, which are the output
  directory joined with one of the file-name constants below: the automatic field
  \<^verbatim>\<open>{}\<close> of the constant is replaced by the argument. This is what \<^verbatim>\<open>str.format\<close> does
  when the output directory contains no brace (\<open>brace_free\<close>). With a brace in the
  directory the Python call raises, or turns a doubled brace into a single one; that case
  is outside the model, and what is stated about the names of the files carries
  \<open>brace_free\<close> as a hypothesis.
\<close>

fun format_name :: "string \<Rightarrow> string \<Rightarrow> string" where
  "format_name (c # d # cs) arg =
     (if c = CHR ''{'' \<and> d = CHR ''}'' then arg @ cs else c # format_name (d # cs) arg)"
| "format_name cs arg = cs"

definition brace_free :: "string \<Rightarrow> bool" where
  "brace_free s = (CHR ''{'' \<notin> set s \<and> CHR ''}'' \<notin> set s)"

text \<open>
  What \<^verbatim>\<open>posixpath.join\<close> puts before a relative second component: the directory,
  with a separator unless it is empty or ends with one.
\<close>

definition dir_prefix :: "string \<Rightarrow> string" where
  "dir_prefix d = (if d = [] \<or> take 1 (rev d) = ''/'' then d else d @ ''/'')"

section \<open>Constants of scenario.py\<close>

definition DATA_DIR :: string where "DATA_DIR = ''data''"
definition NODES_FILE :: string where "NODES_FILE = ''{}_nodes.wkt''"
definition STOPS_FILE :: string where "STOPS_FILE = ''{}_stops.csv''"
definition SCHEDULE_FILE :: string where "SCHEDULE_FILE = ''{}_schedule.csv''"
definition STATIONS_FILE :: string where "STATIONS_FILE = ''stations.wkt''"
definition NR_OF_HOSTS :: int where "NR_OF_HOSTS = 1"
definition HOST_ID_DELIM :: string where "HOST_ID_DELIM = ''_''"

section \<open>Data model\<close>

text \<open>
  Geographic points and points of the projection pane are pairs of floating-point numbers
  in the program; they are modelled as pairs of reals.
\<close>

type_synonym point = "real \<times> real"

text \<open>
  \<^verbatim>\<open>lib.commons.TransitRoute\<close>, with the five attributes scenario.py reads. The constructor
  call in \<open>shape_routes\<close> passes no end stops, so these two are optional.
\<close>

record TransitRoute =
  name :: string
  nodes :: "point list"
  stops :: "point list"
  first_stop :: "string option"
  last_stop :: "string option"

type_synonym ref_route = "string \<times> string option \<times> string option \<times> nat"

text \<open>The parsed command line (\<^verbatim>\<open>argparse\<close>): \<open>osm\<close> is \<^verbatim>\<open>None\<close> unless given.\<close>

record Args =
  gtfs_file :: string
  osm :: "string option"
  types_arg :: string
  weekday :: int
  max_exceptions :: int

datatype error = KeyError string | ProjectionError

section \<open>Collaborators outside scenario.py\<close>

text \<open>
  \<^verbatim>\<open>lib.gtfs.GTFSReader\<close> is not part of the verified file: its methods are parameters.
  \<open>'gs\<close> is the reader's internal state, \<open>'sc\<close> a route's schedule and \<open>'d\<close> a route's
  duration table. \<open>load_feed\<close>, \<open>set_ref_trips\<close>, \<open>build_ref_trips\<close> and \<open>schedule\<close>
  may change the state.
\<close>

record ('gs, 'sc, 'd) GTFSReader =
  load_feed :: "string \<Rightarrow> string list \<Rightarrow> bool \<Rightarrow> 'gs"
  set_ref_trips :: "ref_route list \<Rightarrow> 'gs \<Rightarrow> 'gs"
  build_ref_trips :: "'gs \<Rightarrow> 'gs"
  route_names :: "'gs \<Rightarrow> string list"
  shape_paths :: "'gs \<Rightarrow> string \<Rightarrow> point list option"
  shape_stops :: "'gs \<Rightarrow> string \<Rightarrow> point list option"
  schedule :: "int \<Rightarrow> int \<Rightarrow> 'gs \<Rightarrow> (string \<Rightarrow> 'sc option) \<times> 'gs"
  trip_durations :: "'gs \<Rightarrow> string \<Rightarrow> 'd option"

text \<open>
  \<^verbatim>\<open>lib.project.Projector\<close>, also a parameter. \<open>init_dimensions\<close> gets the precision given
  to the constructor and the point set; it may raise (\<open>None\<close>), and otherwise leaves the
  projector in a fitted state \<open>'fr\<close> and returns width and height. \<open>transform_coords\<close>
  reads that state.
\<close>

record 'fr Projector =
  init_dimensions :: "nat \<Rightarrow> point set \<Rightarrow> ('fr \<times> real \<times> real) option"
  transform_coords :: "'fr \<Rightarrow> point list \<Rightarrow> point list"

text \<open>
  The surroundings of a run: the project root \<^verbatim>\<open>Path.cwd().parent.parent\<close>, the answer
  of \<^verbatim>\<open>path.isdir\<close>, and what \<^verbatim>\<open>OsmRouteParser(fp).parse_routes()\<close> returns for the
  file of a given name.
\<close>

record Env =
  one_dir :: string
  isdir :: "string \<Rightarrow> bool"
  parse_routes :: "string \<Rightarrow> TransitRoute list"

text \<open>
  \<^verbatim>\<open>lib.one.HostGroup\<close> and \<^verbatim>\<open>lib.one.ScenarioSettings\<close> collect what they are told:
  the model keeps the calls in order.
\<close>

datatype setting = SStr string | SInt int

record HostGroup =
  group_id :: string
  id_delim :: "string option"
  group_options :: "(string \<times> setting) list"
  okmaps :: "string list"

definition new_HostGroup :: "string \<Rightarrow> string option \<Rightarrow> HostGroup" where
  "new_HostGroup gid delim =
     \<lparr>group_id = gid, id_delim = delim, group_options = [], okmaps = []\<rparr>"

definition group_set :: "string \<Rightarrow> setting \<Rightarrow> HostGroup \<Rightarrow> HostGroup" where
  "group_set k v g = g\<lparr>group_options := group_options g @ [(k, v)]\<rparr>"

definition set_okmap :: "string \<Rightarrow> HostGroup \<Rightarrow> HostGroup" where
  "set_okmap f g = g\<lparr>okmaps := okmaps g @ [f]\<rparr>"

datatype settings_call =
    AddGroup HostGroup
  | CompleteGroups
  | Spacer
  | SetOption string string

record ScenarioSettings =
  scenario_name :: string
  calls :: "settings_call list"

definition new_ScenarioSettings :: "string \<Rightarrow> ScenarioSettings" where
  "new_ScenarioSettings sc = \<lparr>scenario_name = sc, calls = []\<rparr>"

definition add_group :: "HostGroup \<Rightarrow> ScenarioSettings \<Rightarrow> ScenarioSettings" where
  "add_group g s = s\<lparr>calls := calls s @ [AddGroup g]\<rparr>"

definition complete_groups :: "ScenarioSettings \<Rightarrow> ScenarioSettings" where
  "complete_groups s = s\<lparr>calls := calls s @ [CompleteGroups]\<rparr>"

definition spacer :: "ScenarioSettings \<Rightarrow> ScenarioSettings" where
  "spacer s = s\<lparr>calls := calls s @ [Spacer]\<rparr>"

definition settings_set :: "string \<Rightarrow> string \<Rightarrow> ScenarioSettings \<Rightarrow> ScenarioSettings" where
  "settings_set k v s = s\<lparr>calls := calls s @ [SetOption k v]\<rparr>"

text \<open>
  What a run does, in program order: the calls on the feed reader and the map-extract
  parser that choose the source of the route geometry, the calls on the projector, and
  the effects on the file system. The writers of \<^verbatim>\<open>lib.writer\<close> are recorded with
  their arguments. Errors of the operating system (a directory that cannot be made, a
  file that cannot be opened) are not modelled, and the progress messages of
  \<^verbatim>\<open>logging.info\<close> are left out.
\<close>

datatype ('fr, 'sc, 'd) event =
    LoadFeed string "string list" bool
  | ParseRoutes string
  | SetRefTrips "ref_route list"
  | BuildRefTrips
  | Fit nat "point set"
  | Transform 'fr "point list"
  | Mkdir string
  | WriteWktLinestring "point list" string
  | WriteCsvStops "point list" "'d option" string
  | WriteCsvSchedule "'sc option" string
  | WriteWktPoints "point set" string
  | WriteSettings ScenarioSettings string

record ('fr, 'sc, 'd) Run =
  effects :: "('fr, 'sc, 'd) event list"
  failure :: "error option"

section \<open>scenario.py\<close>

text \<open>The truth value of \<^verbatim>\<open>args.osm\<close>: \<^verbatim>\<open>None\<close> and the empty string are false.\<close>

definition truthy :: "string option \<Rightarrow> bool" where
  "truthy a = (case a of None \<Rightarrow> False | Some f \<Rightarrow> f \<noteq> [])"

text \<open>
  \<open>osm_routes\<close>: all routes of the map extract are returned; their keys (name, first
  stop, last stop, number of stops) go to the feed reader.
\<close>

definition osm_routes ::
  "('gs, 'sc, 'd) GTFSReader \<Rightarrow> Env \<Rightarrow> 'gs \<Rightarrow> string \<Rightarrow>
     ('fr, 'sc, 'd) event list \<times> (error + TransitRoute list \<times> 'gs)" where
  "osm_routes R env gtfs osm_file =
     (let routes = parse_routes env osm_file;
          ref_routes = map (\<lambda>r. (name r, first_stop r, last_stop r, length (stops r))) routes
      in ([ParseRoutes osm_file, SetRefTrips ref_routes],
          Inr (routes, set_ref_trips R ref_routes gtfs)))"

text \<open>
  The loop of \<open>shape_routes\<close>: \<^verbatim>\<open>paths[r]\<close> and \<^verbatim>\<open>stops[r]\<close> raise KeyError for a
  name that is not a key.
\<close>

fun build_routes ::
  "(string \<Rightarrow> point list option) \<Rightarrow> (string \<Rightarrow> point list option) \<Rightarrow> string list \<Rightarrow>
     error + TransitRoute list" where
  "build_routes paths stps [] = Inr []"
| "build_routes paths stps (r # rs) =
     (case paths r of
        None \<Rightarrow> Inl (KeyError r)
      | Some ns \<Rightarrow>
          (case stps r of
             None \<Rightarrow> Inl (KeyError r)
           | Some ss \<Rightarrow>
               (case build_routes paths stps rs of
                  Inl e \<Rightarrow> Inl e
                | Inr rest \<Rightarrow>
                    Inr (\<lparr>name = r, nodes = ns, stops = ss,
                          first_stop = None, last_stop = None\<rparr> # rest))))"

definition shape_routes ::
  "('gs, 'sc, 'd) GTFSReader \<Rightarrow> 'gs \<Rightarrow>
     ('fr, 'sc, 'd) event list \<times> (error + TransitRoute list \<times> 'gs)" where
  "shape_routes R gtfs =
     (let gtfs1 = build_ref_trips R gtfs;
          route_names1 = route_names R gtfs1;
          paths = shape_paths R gtfs1;
          stps = shape_stops R gtfs1
      in ([BuildRefTrips],
          (case build_routes paths stps route_names1 of
             Inl e \<Rightarrow> Inl e
           | Inr routes \<Rightarrow> Inr (routes, gtfs1))))"

text \<open>Lines 57 to 68 of \<open>main\<close>: the feed is loaded and the routes are resolved.\<close>

definition scenario_of :: "Args \<Rightarrow> string" where
  "scenario_of args = basename_without_ext (gtfs_file args)"

definition route_types_of :: "Args \<Rightarrow> string list" where
  "route_types_of args = split_on CHR '','' (types_arg args)"

definition resolve ::
  "('gs, 'sc, 'd) GTFSReader \<Rightarrow> Env \<Rightarrow> Args \<Rightarrow>
     ('fr, 'sc, 'd) event list \<times> (error + TransitRoute list \<times> 'gs)" where
  "resolve R env args =
     (let route_types = route_types_of args;
          with_shapes = \<not> truthy (osm args);
          gtfs = load_feed R (gtfs_file args) route_types with_shapes;
          res = (case osm args of
                   None \<Rightarrow> shape_routes R gtfs
                 | Some f \<Rightarrow> if f = [] then shape_routes R gtfs else osm_routes R env gtfs f)
      in (LoadFeed (gtfs_file args) route_types with_shapes # fst res, snd res))"

text \<open>Lines 74 to 76: the point set handed to the projector.\<close>

definition all_points :: "TransitRoute list \<Rightarrow> point set" where
  "all_points routes = foldl (\<lambda>points r. points \<union> set (nodes r)) {} routes"

text \<open>Lines 85 to 95: the output directory and the file names.\<close>

definition out_dir_of :: "Env \<Rightarrow> Args \<Rightarrow> string" where
  "out_dir_of env args = path_join (path_join (one_dir env) DATA_DIR) (scenario_of args)"

definition nodes_file :: "string \<Rightarrow> string \<Rightarrow> string" where
  "nodes_file out_dir nm = format_name (path_join out_dir NODES_FILE) nm"

definition stops_file :: "string \<Rightarrow> string \<Rightarrow> string" where
  "stops_file out_dir nm = format_name (path_join out_dir STOPS_FILE) nm"

definition schedule_file :: "string \<Rightarrow> string \<Rightarrow> string" where
  "schedule_file out_dir nm = format_name (path_join out_dir SCHEDULE_FILE) nm"

definition stations_file :: "string \<Rightarrow> string" where
  "stations_file out_dir = path_join out_dir STATIONS_FILE"

definition settings_file :: "Env \<Rightarrow> Args \<Rightarrow> string" where
  "settings_file env args = path_join (one_dir env) (scenario_of args @ ''_settings.txt'')"

text \<open>Lines 113 to 119: the host group of a route.\<close>

definition route_group :: "string \<Rightarrow> string \<Rightarrow> HostGroup" where
  "route_group out_dir nm =
     (let g = new_HostGroup nm (Some HOST_ID_DELIM);
          g = group_set ''movementModel'' (SStr ''TransitMapMovement'') g;
          g = group_set ''routeFile'' (SStr (stops_file out_dir nm)) g;
          g = group_set ''scheduleFile'' (SStr (schedule_file out_dir nm)) g;
          g = group_set ''routeType'' (SInt 2) g;
          g = group_set ''nrofHosts'' (SInt NR_OF_HOSTS) g;
          g = set_okmap (nodes_file out_dir nm) g
      in g)"

text \<open>Lines 101 to 144: the body of the loop over the routes, on the state it changes.\<close>

record ('fr, 'sc, 'd) LoopState =
  settings :: ScenarioSettings
  stations :: "point set"
  trace :: "('fr, 'sc, 'd) event list"

definition route_step ::
  "'fr Projector \<Rightarrow> 'fr \<Rightarrow> string \<Rightarrow> (string \<Rightarrow> 'sc option) \<Rightarrow> (string \<Rightarrow> 'd option) \<Rightarrow>
     ('fr, 'sc, 'd) LoopState \<Rightarrow> TransitRoute \<Rightarrow> ('fr, 'sc, 'd) LoopState" where
  "route_step P fr out_dir sched durations st r =
     (let nodes1 = transform_coords P fr (nodes r);
          stops1 = transform_coords P fr (stops r);
          nm = name r
      in \<lparr>settings = add_group (route_group out_dir nm) (settings st),
          stations = stations st \<union> set stops1,
          trace = trace st @
            [Transform fr (nodes r),
             Transform fr (stops r),
             WriteWktLinestring nodes1 (nodes_file out_dir nm),
             WriteCsvStops stops1 (durations (name r)) (stops_file out_dir nm),
             WriteCsvSchedule (sched (name r)) (schedule_file out_dir nm)]\<rparr>)"

text \<open>Lines 150 to 154: the group of the stationary hosts.\<close>

definition station_group :: "string \<Rightarrow> point set \<Rightarrow> HostGroup" where
  "station_group out_dir sts =
     (let g = new_HostGroup ''S'' None;
          g = group_set ''movementModel'' (SStr ''StationaryMultiPointMovement'') g;
          g = group_set ''stationarySystemNr'' (SInt 1) g;
          g = group_set ''pointFile'' (SStr (stations_file out_dir)) g;
          g = group_set ''nrofHosts'' (SInt (int (card sts))) g
      in g)"

text \<open>
  Lines 155 to 170: the settings are completed. \<^verbatim>\<open>math.ceil\<close> gives an integer, and the
  two format calls have named fields in literal templates.
\<close>

definition world_size :: "real \<Rightarrow> real \<Rightarrow> string" where
  "world_size width height = str_int \<lceil>width\<rceil> @ '', '' @ str_int \<lceil>height\<rceil>"

definition hosts_range :: "nat \<Rightarrow> nat \<Rightarrow> string" where
  "hosts_range n_routes n_stations =
     str_int 0 @ '','' @ str_int (int n_routes * NR_OF_HOSTS + int n_stations - 1)"

definition finish_settings ::
  "string \<Rightarrow> real \<Rightarrow> real \<Rightarrow> nat \<Rightarrow> point set \<Rightarrow> ScenarioSettings \<Rightarrow> ScenarioSettings" where
  "finish_settings out_dir width height n_routes sts s =
     (let s = add_group (station_group out_dir sts) s;
          s = complete_groups s;
          s = spacer s;
          s = settings_set ''MovementModel.worldSize'' (world_size width height) s;
          s = settings_set ''Events1.hosts'' (hosts_range n_routes (card sts)) s
      in s)"

text \<open>Lines 74 to 175: projection and output, once routes, schedule and durations are there.\<close>

definition write_scenario ::
  "'fr Projector \<Rightarrow> Env \<Rightarrow> Args \<Rightarrow> TransitRoute list \<Rightarrow> (string \<Rightarrow> 'sc option) \<Rightarrow>
     (string \<Rightarrow> 'd option) \<Rightarrow> ('fr, 'sc, 'd) event list \<Rightarrow> ('fr, 'sc, 'd) Run" where
  "write_scenario P env args routes sched durations ev =
     (let points = all_points routes
      in case init_dimensions P 2 points of
           None \<Rightarrow> \<lparr>effects = ev @ [Fit 2 points], failure = Some ProjectionError\<rparr>
         | Some (fr, width, height) \<Rightarrow>
             (let out_dir = out_dir_of env args;
                  mk = (if isdir env out_dir then [] else [Mkdir out_dir]);
                  s = new_ScenarioSettings (scenario_of args);
                  st = foldl (route_step P fr out_dir sched durations)
                         \<lparr>settings = s, stations = {}, trace = ev @ [Fit 2 points] @ mk\<rparr> routes;
                  s = finish_settings out_dir width height (length routes) (stations st)
                        (settings st)
              in \<lparr>effects = trace st @
                    [WriteWktPoints (stations st) (stations_file out_dir),
                     WriteSettings s (settings_file env args)],
                  failure = None\<rparr>))"

definition main ::
  "('gs, 'sc, 'd) GTFSReader \<Rightarrow> 'fr Projector \<Rightarrow> Env \<Rightarrow> Args \<Rightarrow> ('fr, 'sc, 'd) Run" where
  "main R P env args =
     (case resolve R env args of
        (ev, Inl e) \<Rightarrow> \<lparr>effects = ev, failure = Some e\<rparr>
      | (ev, Inr (routes, gtfs1)) \<Rightarrow>
          (case schedule R (weekday args) (max_exceptions args) gtfs1 of
             (sched, gtfs2) \<Rightarrow>
               write_scenario P env args routes sched (trip_durations R gtfs2) ev))"

section \<open>Collaborators modelled from the specification\<close>

subsection \<open>Coordinate projector\<close>

text \<open>
  Modelled from the spec: \<^verbatim>\<open>lib.project.Projector\<close> is missing from the sources. The
  specification describes a frame made of an offset and a scale, with the bounding width
  and height of the transformed set, fitted so that the minimum corner maps to the
  origin; outputs are rounded to a given precision; fitting no point at all is fatal.
  The scale (plane units per geographic unit) is not given by the specification and is a
  parameter \<open>k\<close>.
\<close>

record ProjectionFrame =
  frame_offset :: point
  frame_scale :: real
  frame_precision :: nat
  frame_width :: real
  frame_height :: real

definition round_to :: "nat \<Rightarrow> real \<Rightarrow> real" where
  "round_to p v = of_int (round (v * 10 ^ p)) / 10 ^ p"

definition fitFrame :: "real \<Rightarrow> nat \<Rightarrow> point set \<Rightarrow> ProjectionFrame option" where
  "fitFrame k p S =
     (if S = {} then None
      else (let ox = Min (fst ` S); oy = Min (snd ` S)
            in Some \<lparr>frame_offset = (ox, oy), frame_scale = k, frame_precision = p,
                     frame_width = round_to p ((Max (fst ` S) - ox) * k),
                     frame_height = round_to p ((Max (snd ` S) - oy) * k)\<rparr>))"

definition applyFrame :: "ProjectionFrame \<Rightarrow> point \<Rightarrow> point" where
  "applyFrame fr pt =
     (round_to (frame_precision fr) ((fst pt - fst (frame_offset fr)) * frame_scale fr),
      round_to (frame_precision fr) ((snd pt - snd (frame_offset fr)) * frame_scale fr))"

definition spec_projector :: "real \<Rightarrow> ProjectionFrame Projector" where
  "spec_projector k =
     \<lparr>init_dimensions =
        (\<lambda>p S. map_option (\<lambda>fr. (fr, frame_width fr, frame_height fr)) (fitFrame k p S)),
      transform_coords = (\<lambda>fr. map (applyFrame fr))\<rparr>"

subsection \<open>Duration estimator\<close>

text \<open>
  Modelled from the spec: the duration estimator behind \<^verbatim>\<open>GTFSReader.trip_durations\<close> is
  missing from the sources. The specification gives, for a representative trip (stops
  with their timestamps, in travel order), one duration per consecutive pair of stops,
  the difference of the two timestamps; a pair whose second timestamp is smaller is
  reported and its duration is zero.
\<close>

type_synonym trip = "(string \<times> int) list"

fun estimate_durations :: "trip \<Rightarrow> int list" where
  "estimate_durations ((s1, t1) # (s2, t2) # rest) =
     (if t2 < t1 then 0 else t2 - t1) # estimate_durations ((s2, t2) # rest)"
| "estimate_durations tr = []"

fun reported_pairs :: "trip \<Rightarrow> (string \<times> string) list" where
  "reported_pairs ((s1, t1) # (s2, t2) # rest) =
     (if t2 < t1 then [(s1, s2)] else []) @ reported_pairs ((s2, t2) # rest)"
| "reported_pairs tr = []"

subsection \<open>Feed reader\<close>

text \<open>
  Modelled from the spec: \<^verbatim>\<open>lib.gtfs.GTFSReader\<close> is missing from the sources. A feed is
  a list of routes; each has a name, a route type, possibly a native shape (its path and
  the positions of its stops), a schedule for each weekday class and exception
  tolerance, and a representative trip. Loading keeps the routes of the requested types
  and the shapes only on request. In reconciliation mode the reference trips are those of
  the routes that match a key of the map extract in name, first stop, last stop and
  number of stops; in native mode they are those of all loaded routes. Schedules and
  durations are given for the routes with a reference trip.
\<close>

record 'sc FeedRoute =
  route_name :: string
  route_type :: string
  shape :: "(point list \<times> point list) option"
  departures :: "int \<Rightarrow> int \<Rightarrow> 'sc"
  ref_trip :: trip

record 'sc FeedState =
  loaded :: "'sc FeedRoute list"
  ref_trips :: "'sc FeedRoute list"

definition feed_key :: "'sc FeedRoute \<Rightarrow> ref_route" where
  "feed_key f =
     (route_name f,
      (case ref_trip f of [] \<Rightarrow> None | x # xs \<Rightarrow> Some (fst x)),
      (case rev (ref_trip f) of [] \<Rightarrow> None | x # xs \<Rightarrow> Some (fst x)),
      length (ref_trip f))"

definition route_key :: "TransitRoute \<Rightarrow> ref_route" where
  "route_key r = (name r, first_stop r, last_stop r, length (stops r))"

definition feed_match :: "'sc FeedRoute list \<Rightarrow> TransitRoute \<Rightarrow> bool" where
  "feed_match feed r = (route_key r \<in> set (map feed_key feed))"

definition feed_has_shapes :: "'sc FeedRoute list \<Rightarrow> bool" where
  "feed_has_shapes feed = (filter (\<lambda>f. shape f \<noteq> None) feed \<noteq> [])"

definition find_route :: "'sc FeedRoute list \<Rightarrow> string \<Rightarrow> 'sc FeedRoute option" where
  "find_route fs nm = find (\<lambda>f. route_name f = nm) fs"

definition spec_reader :: "'sc FeedRoute list \<Rightarrow> ('sc FeedState, 'sc, int list) GTFSReader" where
  "spec_reader feed =
     \<lparr>load_feed = (\<lambda>file route_types with_shapes.
        \<lparr>loaded = map (\<lambda>f. if with_shapes then f else f\<lparr>shape := None\<rparr>)
                    (filter (\<lambda>f. route_type f \<in> set route_types) feed),
         ref_trips = []\<rparr>),
      set_ref_trips = (\<lambda>refs st.
        st\<lparr>ref_trips := filter (\<lambda>f. feed_key f \<in> set refs) (loaded st)\<rparr>),
      build_ref_trips = (\<lambda>st. st\<lparr>ref_trips := loaded st\<rparr>),
      route_names = (\<lambda>st. map route_name (ref_trips st)),
      shape_paths = (\<lambda>st nm.
        (case find_route (ref_trips st) nm of
           None \<Rightarrow> None
         | Some f \<Rightarrow> map_option fst (shape f))),
      shape_stops = (\<lambda>st nm.
        (case find_route (ref_trips st) nm of
           None \<Rightarrow> None
         | Some f \<Rightarrow> map_option snd (shape f))),
      schedule = (\<lambda>wd mx st.
        (\<lambda>nm. map_option (\<lambda>f. departures f wd mx) (find_route (ref_trips st) nm), st)),
      trip_durations = (\<lambda>st nm.
        map_option (\<lambda>f. estimate_durations (ref_trip f)) (find_route (ref_trips st) nm))\<rparr>"

section \<open>The run in closed form\<close>

text \<open>
  Names for the parts of a run, used to state what \<open>main\<close> does: the events of one
  iteration of the loop, the projected stops of all routes, the schedule and duration
  tables as \<open>main\<close> gets them from the reader, and the calls made on the settings.
\<close>

definition route_events ::
  "'fr Projector \<Rightarrow> 'fr \<Rightarrow> string \<Rightarrow> (string \<Rightarrow> 'sc option) \<Rightarrow> (string \<Rightarrow> 'd option) \<Rightarrow>
     TransitRoute \<Rightarrow> ('fr, 'sc, 'd) event list" where
  "route_events P fr out_dir sched durations r =
     [Transform fr (nodes r),
      Transform fr (stops r),
      WriteWktLinestring (transform_coords P fr (nodes r)) (nodes_file out_dir (name r)),
      WriteCsvStops (transform_coords P fr (stops r)) (durations (name r))
        (stops_file out_dir (name r)),
      WriteCsvSchedule (sched (name r)) (schedule_file out_dir (name r))]"

definition projected_stops :: "'fr Projector \<Rightarrow> 'fr \<Rightarrow> TransitRoute list \<Rightarrow> point list" where
  "projected_stops P fr routes = concat (map (\<lambda>r. transform_coords P fr (stops r)) routes)"

definition schedule_of :: "('gs, 'sc, 'd) GTFSReader \<Rightarrow> Args \<Rightarrow> 'gs \<Rightarrow> string \<Rightarrow> 'sc option" where
  "schedule_of R args gtfs = fst (schedule R (weekday args) (max_exceptions args) gtfs)"

definition durations_of :: "('gs, 'sc, 'd) GTFSReader \<Rightarrow> Args \<Rightarrow> 'gs \<Rightarrow> string \<Rightarrow> 'd option" where
  "durations_of R args gtfs =
     trip_durations R (snd (schedule R (weekday args) (max_exceptions args) gtfs))"

definition route_groups :: "string \<Rightarrow> TransitRoute list \<Rightarrow> settings_call list" where
  "route_groups out_dir routes = map (\<lambda>r. AddGroup (route_group out_dir (name r))) routes"

definition final_calls ::
  "string \<Rightarrow> real \<Rightarrow> real \<Rightarrow> TransitRoute list \<Rightarrow> point set \<Rightarrow> settings_call list" where
  "final_calls out_dir width height routes sts =
     route_groups out_dir routes @
     [AddGroup (station_group out_dir sts),
      CompleteGroups,
      Spacer,
      SetOption ''MovementModel.worldSize'' (world_size width height),
      SetOption ''Events1.hosts'' (hosts_range (length routes) (card sts))]"

definition make_dir :: "Env \<Rightarrow> Args \<Rightarrow> ('fr, 'sc, 'd) event list" where
  "make_dir env args =
     (if isdir env (out_dir_of env args) then [] else [Mkdir (out_dir_of env args)])"

text \<open>Classification of the events.\<close>

fun is_projector_call :: "('fr, 'sc, 'd) event \<Rightarrow> bool" where
  "is_projector_call (Fit p S) = True"
| "is_projector_call (Transform fr cs) = True"
| "is_projector_call e = False"

fun is_output :: "('fr, 'sc, 'd) event \<Rightarrow> bool" where
  "is_output (Mkdir d) = True"
| "is_output (WriteWktLinestring cs f) = True"
| "is_output (WriteCsvStops cs ds f) = True"
| "is_output (WriteCsvSchedule sc f) = True"
| "is_output (WriteWktPoints S f) = True"
| "is_output (WriteSettings s f) = True"
| "is_output e = False"

fun written_file :: "('fr, 'sc, 'd) event \<Rightarrow> string option" where
  "written_file (WriteWktLinestring cs f) = Some f"
| "written_file (WriteCsvStops cs ds f) = Some f"
| "written_file (WriteCsvSchedule sc f) = Some f"
| "written_file (WriteWktPoints S f) = Some f"
| "written_file (WriteSettings s f) = Some f"
| "written_file e = None"

definition written_files :: "('fr, 'sc, 'd) event list \<Rightarrow> string list" where
  "written_files evs = concat (map (\<lambda>e. case written_file e of None \<Rightarrow> [] | Some f \<Rightarrow> [f]) evs)"

text \<open>What was written, and what the written settings say.\<close>

fun groups_of :: "settings_call list \<Rightarrow> HostGroup list" where
  "groups_of [] = []"
| "groups_of (AddGroup g # cs) = g # groups_of cs"
| "groups_of (c # cs) = groups_of cs"

fun option_values :: "string \<Rightarrow> settings_call list \<Rightarrow> string list" where
  "option_values k [] = []"
| "option_values k (SetOption k1 v # cs) =
     (if k1 = k then v # option_values k cs else option_values k cs)"
| "option_values k (c # cs) = option_values k cs"

definition nrof_hosts :: "HostGroup \<Rightarrow> int" where
  "nrof_hosts g =
     (case map_of (group_options g) ''nrofHosts'' of Some (SInt n) \<Rightarrow> n | _ \<Rightarrow> 0)"

fun written_settings :: "('fr, 'sc, 'd) event list \<Rightarrow> ScenarioSettings list" where
  "written_settings [] = []"
| "written_settings (WriteSettings s f # es) = s # written_settings es"
| "written_settings (e # es) = written_settings es"

fun written_points :: "('fr, 'sc, 'd) event list \<Rightarrow> (point set \<times> string) list" where
  "written_points [] = []"
| "written_points (WriteWktPoints S f # es) = (S, f) # written_points es"
| "written_points (e # es) = written_points es"

text \<open>
  The calls that choose where the route geometry comes from.
\<close>

fun is_source_call :: "('fr, 'sc, 'd) event \<Rightarrow> bool" where
  "is_source_call (LoadFeed f ts b) = True"
| "is_source_call (ParseRoutes f) = True"
| "is_source_call (SetRefTrips refs) = True"
| "is_source_call BuildRefTrips = True"
| "is_source_call e = False"

text \<open>
  The three writer calls of one iteration of the loop, and the names of their files.
\<close>

definition route_writes ::
  "'fr Projector \<Rightarrow> 'fr \<Rightarrow> string \<Rightarrow> (string \<Rightarrow> 'sc option) \<Rightarrow> (string \<Rightarrow> 'd option) \<Rightarrow>
     TransitRoute \<Rightarrow> ('fr, 'sc, 'd) event list" where
  "route_writes P fr out_dir sched durations r =
     [WriteWktLinestring (transform_coords P fr (nodes r)) (nodes_file out_dir (name r)),
      WriteCsvStops (transform_coords P fr (stops r)) (durations (name r))
        (stops_file out_dir (name r)),
      WriteCsvSchedule (sched (name r)) (schedule_file out_dir (name r))]"

definition route_files :: "string \<Rightarrow> TransitRoute \<Rightarrow> string list" where
  "route_files out_dir r =
     [nodes_file out_dir (name r), stops_file out_dir (name r), schedule_file out_dir (name r)]"

text \<open>
  Two feed routes that differ at most in the timestamps of their representative trips.
\<close>

definition same_but_times :: "'sc FeedRoute \<Rightarrow> 'sc FeedRoute \<Rightarrow> bool" where
  "same_but_times f f' =
     (route_name f = route_name f' \<and> route_type f = route_type f' \<and> shape f = shape f' \<and>
      departures f = departures f' \<and> map fst (ref_trip f) = map fst (ref_trip f'))"

section \<open>Example scenarios\<close>

text \<open>
  A feed with one tram route, ``12'', from stop A to stop Z, and a map extract given on
  the command line.
\<close>

definition ex_args :: Args where
  "ex_args = \<lparr>gtfs_file = ''feeds/city.zip'', osm = Some ''city.osm'', types_arg = ''0,1'',
              weekday = 0, max_exceptions = 180\<rparr>"

definition ex_env :: "TransitRoute list \<Rightarrow> Env" where
  "ex_env rs = \<lparr>one_dir = ''/one'', isdir = (\<lambda>d. False), parse_routes = (\<lambda>f. rs)\<rparr>"

definition ex_feed :: "int list FeedRoute list" where
  "ex_feed =
     [\<lparr>route_name = ''12'', route_type = ''0'',
       shape = Some ([(0, 0), (4, 3)], [(0, 0), (4, 3)]),
       departures = (\<lambda>wd mx. [21600]),
       ref_trip = [(''A'', 0), (''Z'', 600)]\<rparr>]"

definition ex_route_12 :: TransitRoute where
  "ex_route_12 = \<lparr>name = ''12'', nodes = [(0, 0), (2, 1), (4, 3)], stops = [(0, 0), (4, 3)],
                  first_stop = Some ''A'', last_stop = Some ''Z''\<rparr>"

definition ex_route_7 :: TransitRoute where
  "ex_route_7 = \<lparr>name = ''7'', nodes = [(4, 3), (5, 1), (6, 0)], stops = [(4, 3), (6, 0)],
                 first_stop = Some ''Z'', last_stop = Some ''Q''\<rparr>"

definition ex_frame :: ProjectionFrame where
  "ex_frame = \<lparr>frame_offset = (0, 0), frame_scale = 1, frame_precision = 2,
               frame_width = 6, frame_height = 3\<rparr>"

text \<open>
  A route of the map extract named like the route of the feed and with the same end
  stops, but with three stops where the trip of the feed has two.
\<close>

definition ex_route_12x :: TransitRoute where
  "ex_route_12x = \<lparr>name = ''12'', nodes = [(0, 0), (1, 1), (2, 1)],
                   stops = [(0, 0), (1, 1), (2, 1)],
                   first_stop = Some ''A'', last_stop = Some ''Z''\<rparr>"

text \<open>
  The way back of route 12 in the map extract: the same name, the end stops exchanged.
\<close>

definition ex_route_12_back :: TransitRoute where
  "ex_route_12_back = \<lparr>name = ''12'', nodes = [(4, 3), (2, 1), (0, 0)], stops = [(4, 3), (0, 0)],
                       first_stop = Some ''Z'', last_stop = Some ''A''\<rparr>"

text \<open>
  A route half a unit wide and high, and the frame fitted on it with scale 1.
\<close>

definition ex_route_half :: TransitRoute where
  "ex_route_half = \<lparr>name = ''3'', nodes = [(0, 0), (1 / 2, 1 / 2)],
                    stops = [(0, 0), (1 / 2, 1 / 2)],
                    first_stop = Some ''A'', last_stop = Some ''B''\<rparr>"

definition ex_half_frame :: ProjectionFrame where
  "ex_half_frame = \<lparr>frame_offset = (0, 0), frame_scale = 1, frame_precision = 2,
                    frame_width = 1 / 2, frame_height = 1 / 2\<rparr>"

text \<open>
  The feed of the example, with a representative trip that arrives before it leaves.
\<close>

definition ex_feed_late :: "int list FeedRoute list" where
  "ex_feed_late =
     [\<lparr>route_name = ''12'', route_type = ''0'',
       shape = Some ([(0, 0), (4, 3)], [(0, 0), (4, 3)]),
       departures = (\<lambda>wd mx. [21600]),
       ref_trip = [(''A'', 600), (''Z'', 0)]\<rparr>]"

text \<open>The command line of the example without the map extract.\<close>

definition ex_args_native :: Args where
  "ex_args_native = ex_args\<lparr>osm := None\<rparr>"

section \<open>Properties of the run\<close>

subsection \<open>The loop and the run in closed form\<close>

lemma all_points_foldl:
  "foldl (\<lambda>points r. points \<union> set (nodes r)) A routes = A \<union> (\<Union>r\<in>set routes. set (nodes r))"
  by (induction routes arbitrary: A) auto

lemma all_points_eq: "all_points routes = (\<Union>r\<in>set routes. set (nodes r))"
  by (simp add: all_points_def all_points_foldl)

lemma finite_all_points: "finite (all_points routes)"
  by (simp add: all_points_eq)

lemma loop_trace:
  "trace (foldl (route_step P fr od sched durs) st routes) =
     trace st @ concat (map (route_events P fr od sched durs) routes)"
  by (induction routes arbitrary: st) (simp_all add: route_step_def route_events_def Let_def)

lemma loop_stations:
  "stations (foldl (route_step P fr od sched durs) st routes) =
     stations st \<union> set (projected_stops P fr routes)"
  by (induction routes arbitrary: st)
     (auto simp add: route_step_def projected_stops_def Let_def)

lemma loop_settings:
  "settings (foldl (route_step P fr od sched durs) st routes) =
     \<lparr>scenario_name = scenario_name (settings st),
      calls = calls (settings st) @ route_groups od routes\<rparr>"
  by (induction routes arbitrary: st)
     (simp_all add: route_step_def add_group_def route_groups_def Let_def)

lemma finish_settings_calls:
  "finish_settings od w h n sts s =
     \<lparr>scenario_name = scenario_name s,
      calls = calls s @
        [AddGroup (station_group od sts), CompleteGroups, Spacer,
         SetOption ''MovementModel.worldSize'' (world_size w h),
         SetOption ''Events1.hosts'' (hosts_range n (card sts))]\<rparr>"
  by (simp add: finish_settings_def add_group_def complete_groups_def spacer_def
        settings_set_def Let_def)

lemma write_scenario_ok:
  assumes "init_dimensions P 2 (all_points routes) = Some (fr, w, h)"
  shows "write_scenario P env args routes sched durs ev =
     \<lparr>effects = ev @ [Fit 2 (all_points routes)] @ make_dir env args @
        concat (map (route_events P fr (out_dir_of env args) sched durs) routes) @
        [WriteWktPoints (set (projected_stops P fr routes)) (stations_file (out_dir_of env args)),
         WriteSettings
           \<lparr>scenario_name = scenario_of args,
            calls = final_calls (out_dir_of env args) w h routes
                      (set (projected_stops P fr routes))\<rparr>
           (settings_file env args)],
      failure = None\<rparr>"
  using assms
  by (simp add: write_scenario_def Let_def loop_trace loop_stations loop_settings
        finish_settings_calls final_calls_def make_dir_def new_ScenarioSettings_def)

lemma write_scenario_fail:
  assumes "init_dimensions P 2 (all_points routes) = None"
  shows "write_scenario P env args routes sched durs ev =
     \<lparr>effects = ev @ [Fit 2 (all_points routes)], failure = Some ProjectionError\<rparr>"
  using assms by (simp add: write_scenario_def Let_def)

lemma main_resolved:
  assumes "resolve R env args = (ev, Inr (routes, g))"
  shows "main R P env args =
     write_scenario P env args routes (schedule_of R args g) (durations_of R args g) ev"
  using assms by (simp add: main_def schedule_of_def durations_of_def split: prod.splits)

lemma main_unresolved:
  assumes "resolve R env args = (ev, Inl e)"
  shows "main R P env args = \<lparr>effects = ev, failure = Some e\<rparr>"
  using assms by (simp add: main_def)

lemma resolve_osm:
  assumes "osm args = Some f" and "f \<noteq> []"
  shows "resolve R env args =
     ([LoadFeed (gtfs_file args) (route_types_of args) False, ParseRoutes f,
       SetRefTrips (map route_key (parse_routes env f))],
      Inr (parse_routes env f,
           set_ref_trips R (map route_key (parse_routes env f))
             (load_feed R (gtfs_file args) (route_types_of args) False)))"
  using assms
  by (simp add: resolve_def osm_routes_def truthy_def Let_def route_key_def[abs_def])

lemma resolve_fst:
  "fst (resolve R env args) =
     LoadFeed (gtfs_file args) (route_types_of args) (\<not> truthy (osm args)) #
     (case osm args of
        None \<Rightarrow> [BuildRefTrips]
      | Some f \<Rightarrow>
          if f = [] then [BuildRefTrips]
          else [ParseRoutes f, SetRefTrips (map route_key (parse_routes env f))])"
  by (simp add: resolve_def shape_routes_def osm_routes_def truthy_def Let_def
        route_key_def[abs_def] split: option.splits)

lemma main_failure:
  fixes P :: "'fr Projector"
  shows "failure (main R P env args) =
     (case map_sum id fst (snd (resolve R env args :: ('fr, 'sc, 'd) event list \<times> _)) of
        Inl e \<Rightarrow> Some e
      | Inr routes \<Rightarrow>
          (case init_dimensions P 2 (all_points routes) of
             None \<Rightarrow> Some ProjectionError
           | Some x \<Rightarrow> None))"
proof -
  obtain ev res where r: "resolve R env args = (ev :: ('fr, 'sc, 'd) event list, res)"
    by (cases "resolve R env args :: ('fr, 'sc, 'd) event list \<times> _") auto
  show ?thesis
  proof (cases res)
    case (Inl err)
    with r show ?thesis by (simp add: main_unresolved)
  next
    case (Inr b)
    then obtain routes g where b: "res = Inr (routes, g)" by (cases b) auto
    show ?thesis
    proof (cases "init_dimensions P 2 (all_points routes)")
      case None
      with r b show ?thesis by (simp add: main_resolved write_scenario_fail)
    next
      case (Some a)
      then obtain fr w h where fit: "init_dimensions P 2 (all_points routes) = Some (fr, w, h)"
        by (cases a) auto
      with r b show ?thesis by (simp add: main_resolved write_scenario_ok)
    qed
  qed
qed

subsection \<open>Selections from the events\<close>

lemma written_settings_append [simp]:
  "written_settings (xs @ ys) = written_settings xs @ written_settings ys"
  by (induction xs rule: written_settings.induct) simp_all

lemma written_points_append [simp]:
  "written_points (xs @ ys) = written_points xs @ written_points ys"
  by (induction xs rule: written_points.induct) simp_all

lemma groups_of_append [simp]: "groups_of (xs @ ys) = groups_of xs @ groups_of ys"
  by (induction xs rule: groups_of.induct) simp_all

lemma option_values_append [simp]:
  "option_values k (xs @ ys) = option_values k xs @ option_values k ys"
  by (induction k xs rule: option_values.induct) simp_all

lemma written_settings_route_events [simp]:
  "written_settings (concat (map (route_events P fr od sched durs) routes)) = []"
  by (induction routes) (simp_all add: route_events_def)

lemma written_points_route_events [simp]:
  "written_points (concat (map (route_events P fr od sched durs) routes)) = []"
  by (induction routes) (simp_all add: route_events_def)

lemma written_settings_make_dir [simp]: "written_settings (make_dir env args) = []"
  by (simp add: make_dir_def)

lemma written_points_make_dir [simp]: "written_points (make_dir env args) = []"
  by (simp add: make_dir_def)

lemma no_settings_in_resolve:
  assumes "resolve R env args = (ev, res)"
  shows "written_settings ev = []" and "written_points ev = []"
  using assms
  by (auto simp add: resolve_def shape_routes_def osm_routes_def truthy_def Let_def
        split: option.splits if_splits)

lemma groups_of_route_groups [simp]:
  "groups_of (route_groups od routes) = map (\<lambda>r. route_group od (name r)) routes"
  by (induction routes) (simp_all add: route_groups_def)

lemma option_values_route_groups [simp]: "option_values k (route_groups od routes) = []"
  by (induction routes) (simp_all add: route_groups_def)

lemma nrof_hosts_route_group [simp]: "nrof_hosts (route_group od nm) = NR_OF_HOSTS"
  by (simp add: nrof_hosts_def route_group_def group_set_def set_okmap_def new_HostGroup_def
        Let_def)

lemma nrof_hosts_station_group [simp]: "nrof_hosts (station_group od S) = int (card S)"
  by (simp add: nrof_hosts_def station_group_def group_set_def new_HostGroup_def Let_def)

lemma filter_projector_route_events:
  "filter is_projector_call (concat (map (route_events P fr od sched durs) routes)) =
     concat (map (\<lambda>r. [Transform fr (nodes r), Transform fr (stops r)]) routes)"
  by (induction routes) (simp_all add: route_events_def)

lemma filter_projector_make_dir [simp]: "filter is_projector_call (make_dir env args) = []"
  by (simp add: make_dir_def)

lemma filter_output_make_dir [simp]: "filter is_output (make_dir env args) = make_dir env args"
  by (simp add: make_dir_def)

lemma resolve_no_projector_output:
  assumes "resolve R env args = (ev, res)"
  shows "filter is_projector_call ev = []" and "filter is_output ev = []"
  using assms
  by (auto simp add: resolve_def shape_routes_def osm_routes_def truthy_def Let_def
        split: option.splits if_splits)

lemma filter_source_route_events [simp]:
  "filter is_source_call (concat (map (route_events P fr od sched durs) routes)) = []"
  by (induction routes) (simp_all add: route_events_def)

lemma filter_source_make_dir [simp]: "filter is_source_call (make_dir env args) = []"
  by (simp add: make_dir_def)

lemma main_source_calls:
  fixes P :: "'fr Projector"
  shows "filter is_source_call (effects (main R P env args)) =
     (fst (resolve R env args) :: ('fr, 'sc, 'd) event list)"
proof -
  obtain ev res where r: "resolve R env args = (ev :: ('fr, 'sc, 'd) event list, res)"
    by (cases "resolve R env args :: ('fr, 'sc, 'd) event list \<times> _") auto
  from r have "ev = fst (resolve R env args)" by simp
  then have src: "filter is_source_call ev = ev"
    by (simp add: resolve_fst split: option.splits)
  show ?thesis
  proof (cases res)
    case (Inl e)
    then show ?thesis using r src by (simp add: main_unresolved)
  next
    case (Inr b)
    then obtain routes g where b: "res = Inr (routes, g)" by (cases b) auto
    show ?thesis
    proof (cases "init_dimensions P 2 (all_points routes)")
      case None
      then show ?thesis
        using r b src by (simp add: main_resolved write_scenario_fail)
    next
      case (Some a)
      then obtain fr w h where fit: "init_dimensions P 2 (all_points routes) = Some (fr, w, h)"
        by (cases a) auto
      show ?thesis
        using r b src by (simp add: main_resolved write_scenario_ok[OF fit])
    qed
  qed
qed

lemma filter_output_route_events:
  "filter is_output (concat (map (route_events P fr od sched durs) routes)) =
     concat (map (route_writes P fr od sched durs) routes)"
  by (induction routes) (simp_all add: route_events_def route_writes_def)

lemma main_outputs:
  fixes P :: "'fr Projector" and ev :: "('fr, 'sc, 'd) event list"
  assumes "resolve R env args = (ev, Inr (routes, g))"
    and "init_dimensions P 2 (all_points routes) = Some (fr, w, h)"
  shows "filter is_output (effects (main R P env args)) =
     make_dir env args @
     concat (map (route_writes P fr (out_dir_of env args) (schedule_of R args g)
                    (durations_of R args g)) routes) @
     [WriteWktPoints (set (projected_stops P fr routes)) (stations_file (out_dir_of env args)),
      WriteSettings
        \<lparr>scenario_name = scenario_of args,
          calls = final_calls (out_dir_of env args) w h routes
                    (set (projected_stops P fr routes))\<rparr>
        (settings_file env args)]"
  using resolve_no_projector_output(2)[OF assms(1)]
  by (simp add: main_resolved[OF assms(1)] write_scenario_ok[OF assms(2)]
        filter_output_route_events)

lemma written_files_append [simp]:
  "written_files (xs @ ys) = written_files xs @ written_files ys"
  by (simp add: written_files_def)

lemma written_files_Nil [simp]: "written_files [] = []"
  by (simp add: written_files_def)

lemma written_files_Cons [simp]:
  "written_files (e # es) =
     (case written_file e of None \<Rightarrow> [] | Some f \<Rightarrow> [f]) @ written_files es"
  by (simp add: written_files_def)

lemma written_files_route_events:
  "written_files (concat (map (route_events P fr od sched durs) routes)) =
     concat (map (route_files od) routes)"
  by (induction routes) (simp_all add: route_events_def route_files_def)

lemma written_files_make_dir [simp]: "written_files (make_dir env args) = []"
  by (simp add: make_dir_def)

lemma written_files_resolve:
  assumes "resolve R env args = (ev, res)"
  shows "written_files ev = []"
  using assms
  by (auto simp add: resolve_def shape_routes_def osm_routes_def truthy_def Let_def
        split: option.splits if_splits)

lemma main_written_files:
  fixes P :: "'fr Projector" and ev :: "('fr, 'sc, 'd) event list"
  assumes "resolve R env args = (ev, Inr (routes, g))"
    and "init_dimensions P 2 (all_points routes) = Some (fr, w, h)"
  shows "written_files (effects (main R P env args)) =
     concat (map (route_files (out_dir_of env args)) routes) @
     [stations_file (out_dir_of env args), settings_file env args]"
  using written_files_resolve[OF assms(1)]
  by (simp add: main_resolved[OF assms(1)] write_scenario_ok[OF assms(2)]
        written_files_route_events)

lemma main_effects_cases:
  fixes P :: "'fr Projector" and R :: "('gs, 'sc, 'd) GTFSReader"
  assumes "e \<in> set (effects (main R P env args))"
  shows "is_source_call e \<or> (\<exists>p S. e = Fit p S) \<or> (\<exists>d. e = Mkdir d) \<or>
     (\<exists>S f. e = WriteWktPoints S f) \<or> (\<exists>s f. e = WriteSettings s f) \<or>
     (\<exists>fr g r. e \<in> set (route_events P fr (out_dir_of env args) (schedule_of R args g)
        (durations_of R args g) r))"
proof -
  obtain ev res where r: "resolve R env args = (ev :: ('fr, 'sc, 'd) event list, res)"
    by (cases "resolve R env args :: ('fr, 'sc, 'd) event list \<times> _") auto
  from r have "ev = fst (resolve R env args)" by simp
  then have src: "\<forall>x\<in>set ev. is_source_call x"
    by (simp add: resolve_fst split: option.splits)
  show ?thesis
  proof (cases res)
    case (Inl err)
    with assms r src show ?thesis by (simp add: main_unresolved)
  next
    case (Inr b)
    then obtain routes g where b: "res = Inr (routes, g)" by (cases b) auto
    show ?thesis
    proof (cases "init_dimensions P 2 (all_points routes)")
      case None
      with assms r b src show ?thesis
        by (auto simp add: main_resolved write_scenario_fail)
    next
      case (Some a)
      then obtain fr w h where fit: "init_dimensions P 2 (all_points routes) = Some (fr, w, h)"
        by (cases a) auto
      from assms r b src show ?thesis
        unfolding main_resolved[OF r[unfolded b]] write_scenario_ok[OF fit]
        by (auto simp add: make_dir_def split: if_splits)
    qed
  qed
qed

subsection \<open>File names\<close>

lemma format_name_inj:
  "format_name (x @ ''{}'' @ y) a = format_name (x @ ''{}'' @ y) b \<Longrightarrow> a = b"
proof (induction x)
  case Nil
  then show ?case by simp
next
  case (Cons c x)
  obtain d rest where dr: "x @ ''{}'' @ y = d # rest"
    by (cases "x @ ''{}'' @ y") auto
  show ?case
  proof (cases "c = CHR ''{'' \<and> d = CHR ''}''")
    case True
    with Cons.prems dr show ?thesis by simp
  next
    case False
    with Cons.prems dr have "format_name (d # rest) a = format_name (d # rest) b" by auto
    with Cons.IH dr show ?thesis by simp
  qed
qed

lemma format_name_suffix:
  "suffix s t \<Longrightarrow> CHR ''{'' \<notin> set s \<Longrightarrow> CHR ''}'' \<notin> set s \<Longrightarrow> suffix s (format_name t a)"
proof (induction t a rule: format_name.induct)
  case (1 c d cs arg)
  show ?case
  proof (cases "c = CHR ''{'' \<and> d = CHR ''}''")
    case True
    with "1.prems" have "suffix s cs"
      by (auto simp add: suffix_Cons)
    with True show ?thesis by (simp add: suffix_appendI)
  next
    case False
    from "1.prems"(1) consider "s = c # d # cs" | "suffix s (d # cs)"
      by (auto simp add: suffix_Cons)
    then show ?thesis
    proof cases
      case 1
      have "\<And>t. CHR ''{'' \<notin> set t \<Longrightarrow> format_name t arg = t"
      proof -
        fix t :: string
        show "CHR ''{'' \<notin> set t \<Longrightarrow> format_name t arg = t"
          by (induction t arg rule: format_name.induct) auto
      qed
      with 1 "1.prems"(2) have "format_name (c # d # cs) arg = c # d # cs"
        by blast
      with 1 show ?thesis by simp
    next
      case 2
      with False "1.IH" "1.prems" have "suffix s (format_name (d # cs) arg)" by simp
      with False show ?thesis by (auto simp add: suffix_ConsI)
    qed
  qed
qed simp_all

lemma path_join_suffix: "suffix b (path_join a b)"
  by (simp add: path_join_def suffix_def)

lemma path_join_field: "\<exists>x. path_join a (''{}'' @ y) = x @ ''{}'' @ y"
proof -
  have "path_join a (''{}'' @ y) = a @ ''{}'' @ y \<or>
        path_join a (''{}'' @ y) = (a @ ''/'') @ ''{}'' @ y"
    by (simp add: path_join_def)
  then show ?thesis by blast
qed

lemma format_name_plain:
  "brace_free p \<Longrightarrow> format_name (p @ ''{}'' @ s) a = p @ a @ s"
proof (induction p)
  case Nil
  then show ?case by simp
next
  case (Cons c p)
  obtain d rest where dr: "p @ ''{}'' @ s = d # rest"
    by (cases "p @ ''{}'' @ s") auto
  from Cons.prems have c: "c \<noteq> CHR ''{''" and p: "brace_free p"
    by (auto simp add: brace_free_def)
  from c dr have "format_name (c # p @ ''{}'' @ s) a = c # format_name (p @ ''{}'' @ s) a"
    by simp
  with Cons.IH[OF p] show ?case by simp
qed

lemma path_join_relative: "take 1 b \<noteq> ''/'' \<Longrightarrow> path_join a b = dir_prefix a @ b"
  by (simp add: path_join_def dir_prefix_def)

lemma brace_free_dir_prefix: "brace_free d \<Longrightarrow> brace_free (dir_prefix d)"
  by (auto simp add: brace_free_def dir_prefix_def)

lemma plain_names:
  assumes "brace_free od"
  shows "nodes_file od n = dir_prefix od @ n @ ''_nodes.wkt''"
    and "stops_file od n = dir_prefix od @ n @ ''_stops.csv''"
    and "schedule_file od n = dir_prefix od @ n @ ''_schedule.csv''"
    and "stations_file od = dir_prefix od @ ''stations.wkt''"
  using format_name_plain[OF brace_free_dir_prefix[OF assms]]
  by (simp_all add: nodes_file_def stops_file_def schedule_file_def stations_file_def
        NODES_FILE_def STOPS_FILE_def SCHEDULE_FILE_def STATIONS_FILE_def path_join_relative)

lemma nodes_file_inj: "nodes_file od a = nodes_file od b \<Longrightarrow> a = b"
  using path_join_field[of od "''_nodes.wkt''"] format_name_inj
  by (auto simp add: nodes_file_def NODES_FILE_def)

lemma stops_file_inj: "stops_file od a = stops_file od b \<Longrightarrow> a = b"
  using path_join_field[of od "''_stops.csv''"] format_name_inj
  by (auto simp add: stops_file_def STOPS_FILE_def)

lemma schedule_file_inj: "schedule_file od a = schedule_file od b \<Longrightarrow> a = b"
  using path_join_field[of od "''_schedule.csv''"] format_name_inj
  by (auto simp add: schedule_file_def SCHEDULE_FILE_def)

lemma file_suffixes:
  "suffix ''_nodes.wkt'' (nodes_file od n)"
  "suffix ''_stops.csv'' (stops_file od n)"
  "suffix ''_schedule.csv'' (schedule_file od n)"
  "suffix ''stations.wkt'' (stations_file od)"
  "suffix ''_settings.txt'' (settings_file env args)"
proof -
  have a: "suffix ''_nodes.wkt'' (path_join od NODES_FILE)"
    using path_join_suffix[of NODES_FILE od] by (auto simp add: NODES_FILE_def suffix_def)
  show "suffix ''_nodes.wkt'' (nodes_file od n)"
    unfolding nodes_file_def by (rule format_name_suffix[OF a]) simp_all
  have b: "suffix ''_stops.csv'' (path_join od STOPS_FILE)"
    using path_join_suffix[of STOPS_FILE od] by (auto simp add: STOPS_FILE_def suffix_def)
  show "suffix ''_stops.csv'' (stops_file od n)"
    unfolding stops_file_def by (rule format_name_suffix[OF b]) simp_all
  have c: "suffix ''_schedule.csv'' (path_join od SCHEDULE_FILE)"
    using path_join_suffix[of SCHEDULE_FILE od] by (auto simp add: SCHEDULE_FILE_def suffix_def)
  show "suffix ''_schedule.csv'' (schedule_file od n)"
    unfolding schedule_file_def by (rule format_name_suffix[OF c]) simp_all
  show "suffix ''stations.wkt'' (stations_file od)"
    using path_join_suffix[of STATIONS_FILE od] by (simp add: stations_file_def STATIONS_FILE_def)
  show "suffix ''_settings.txt'' (settings_file env args)"
    using path_join_suffix[of "scenario_of args @ ''_settings.txt''" "one_dir env"]
    by (auto simp add: settings_file_def suffix_def)
qed

lemma suffix_clash:
  "suffix a s \<Longrightarrow> suffix b s \<Longrightarrow> \<not> suffix a b \<Longrightarrow> \<not> suffix b a \<Longrightarrow> False"
  using suffix_same_cases by blast

lemma kinds_differ:
  "nodes_file od a \<noteq> stops_file od b"
  "nodes_file od a \<noteq> schedule_file od b"
  "stops_file od a \<noteq> schedule_file od b"
  "nodes_file od a \<noteq> stations_file od"
  "stops_file od a \<noteq> stations_file od"
  "schedule_file od a \<noteq> stations_file od"
  "nodes_file od a \<noteq> settings_file env args"
  "stops_file od a \<noteq> settings_file env args"
  "schedule_file od a \<noteq> settings_file env args"
  "stations_file od \<noteq> settings_file env args"
proof -
  show "nodes_file od a \<noteq> stops_file od b"
    using suffix_clash[OF file_suffixes(1)[of od a], of "''_stops.csv''"] file_suffixes(2)[of od b]
    by (auto simp add: suffix_Cons)
  show "nodes_file od a \<noteq> schedule_file od b"
    using suffix_clash[OF file_suffixes(1)[of od a], of "''_schedule.csv''"]
      file_suffixes(3)[of od b]
    by (auto simp add: suffix_Cons)
  show "stops_file od a \<noteq> schedule_file od b"
    using suffix_clash[OF file_suffixes(2)[of od a], of "''_schedule.csv''"]
      file_suffixes(3)[of od b]
    by (auto simp add: suffix_Cons)
  show "nodes_file od a \<noteq> stations_file od"
    using suffix_clash[OF file_suffixes(1)[of od a], of "''stations.wkt''"] file_suffixes(4)[of od]
    by (auto simp add: suffix_Cons)
  show "stops_file od a \<noteq> stations_file od"
    using suffix_clash[OF file_suffixes(2)[of od a], of "''stations.wkt''"] file_suffixes(4)[of od]
    by (auto simp add: suffix_Cons)
  show "schedule_file od a \<noteq> stations_file od"
    using suffix_clash[OF file_suffixes(3)[of od a], of "''stations.wkt''"] file_suffixes(4)[of od]
    by (auto simp add: suffix_Cons)
  show "nodes_file od a \<noteq> settings_file env args"
    using suffix_clash[OF file_suffixes(1)[of od a], of "''_settings.txt''"]
      file_suffixes(5)[of env args]
    by (auto simp add: suffix_Cons)
  show "stops_file od a \<noteq> settings_file env args"
    using suffix_clash[OF file_suffixes(2)[of od a], of "''_settings.txt''"]
      file_suffixes(5)[of env args]
    by (auto simp add: suffix_Cons)
  show "schedule_file od a \<noteq> settings_file env args"
    using suffix_clash[OF file_suffixes(3)[of od a], of "''_settings.txt''"]
      file_suffixes(5)[of env args]
    by (auto simp add: suffix_Cons)
  show "stations_file od \<noteq> settings_file env args"
    using suffix_clash[OF file_suffixes(4)[of od], of "''_settings.txt''"]
      file_suffixes(5)[of env args]
    by (auto simp add: suffix_Cons)
qed

lemma route_files_distinct: "distinct (route_files od r)"
  using kinds_differ(1-3) by (simp add: route_files_def)

lemma route_files_disjoint:
  assumes "name r \<noteq> name r'"
  shows "set (route_files od r) \<inter> set (route_files od r') = {}"
proof -
  have "x \<noteq> y" if "x \<in> set (route_files od r)" and "y \<in> set (route_files od r')" for x y
    using that assms kinds_differ(1-3)[of od] kinds_differ(1-3)[of od, symmetric]
      nodes_file_inj[of od "name r" "name r'"] stops_file_inj[of od "name r" "name r'"]
      schedule_file_inj[of od "name r" "name r'"]
    by (auto simp add: route_files_def)
  then show ?thesis by blast
qed

lemma route_files_eq: "(route_files od r = route_files od r') = (name r = name r')"
  using nodes_file_inj[of od "name r" "name r'"] by (auto simp add: route_files_def)

lemma shared_not_route:
  "stations_file od \<notin> set (concat (map (route_files od) routes))"
  "settings_file env args \<notin> set (concat (map (route_files od) routes))"
  using kinds_differ(4-9) kinds_differ(4-9)[symmetric] by (auto simp add: route_files_def)

lemma all_route_files_distinct:
  "distinct (map name routes) \<Longrightarrow> distinct (concat (map (route_files od) routes))"
proof (induction routes)
  case Nil
  then show ?case by simp
next
  case (Cons r routes)
  have "set (route_files od r) \<inter> set (route_files od r') = {}" if "r' \<in> set routes" for r'
  proof -
    from that Cons.prems have "name r \<noteq> name r'" by auto
    then show ?thesis by (rule route_files_disjoint)
  qed
  then have "set (route_files od r) \<inter> set (concat (map (route_files od) routes)) = {}"
    by auto
  with Cons route_files_distinct[of od r] show ?case by simp
qed

subsection \<open>The projector of the specification\<close>

lemma round_to_int [simp]: "round_to 2 (numeral n) = numeral n"
  by (simp add: round_to_def)

lemma round_to_0 [simp]: "round_to p 0 = 0"
  by (simp add: round_to_def)

lemma round_to_of_int: "round_to p (of_int n) = of_int n"
proof -
  have "of_int n * (10::real) ^ p = of_int (n * 10 ^ p)" by simp
  then have "round (of_int n * (10::real) ^ p) = n * 10 ^ p"
    by (simp only: round_of_int)
  then show ?thesis by (simp add: round_to_def)
qed

lemma round_to_1 [simp]: "round_to p 1 = 1"
  using round_to_of_int[of p 1] by simp

lemma round_to_mono: "x \<le> y \<Longrightarrow> round_to p x \<le> round_to p y"
  by (simp add: round_to_def round_mono divide_right_mono)

lemma projected_bounds:
  fixes A :: "real set"
  assumes "finite A" and "A \<noteq> {}" and "0 \<le> k"
  shows "Min ((\<lambda>x. round_to p ((x - Min A) * k)) ` A) = 0"
    and "Max ((\<lambda>x. round_to p ((x - Min A) * k)) ` A) = round_to p ((Max A - Min A) * k)"
proof -
  let ?f = "\<lambda>x. round_to p ((x - Min A) * k)"
  have m: "mono ?f"
    by (rule monoI) (simp add: round_to_mono mult_right_mono assms(3))
  from mono_Min_commute[OF m assms(1,2)] show "Min (?f ` A) = 0" by simp
  from mono_Max_commute[OF m assms(1,2)] show "Max (?f ` A) = round_to p ((Max A - Min A) * k)"
    by simp
qed

lemma fitFrame_bounds:
  assumes "finite S" and "fitFrame k p S = Some fr" and "0 \<le> k"
  shows "Min (fst ` applyFrame fr ` S) = 0"
    and "Min (snd ` applyFrame fr ` S) = 0"
    and "Max (fst ` applyFrame fr ` S) = frame_width fr"
    and "Max (snd ` applyFrame fr ` S) = frame_height fr"
proof -
  from assms(2) have ne: "S \<noteq> {}" by (auto simp add: fitFrame_def)
  from assms(2) ne have fr: "fr = \<lparr>frame_offset = (Min (fst ` S), Min (snd ` S)), frame_scale = k,
      frame_precision = p,
      frame_width = round_to p ((Max (fst ` S) - Min (fst ` S)) * k),
      frame_height = round_to p ((Max (snd ` S) - Min (snd ` S)) * k)\<rparr>"
    by (simp add: fitFrame_def Let_def)
  have x: "fst ` applyFrame fr ` S = (\<lambda>x. round_to p ((x - Min (fst ` S)) * k)) ` (fst ` S)"
    by (simp add: image_image applyFrame_def fr)
  have y: "snd ` applyFrame fr ` S = (\<lambda>x. round_to p ((x - Min (snd ` S)) * k)) ` (snd ` S)"
    by (simp add: image_image applyFrame_def fr)
  have fx: "finite (fst ` S)" "fst ` S \<noteq> {}" and fy: "finite (snd ` S)" "snd ` S \<noteq> {}"
    using assms(1) ne by simp_all
  show "Min (fst ` applyFrame fr ` S) = 0"
    unfolding x by (rule projected_bounds(1)[OF fx assms(3)])
  show "Min (snd ` applyFrame fr ` S) = 0"
    unfolding y by (rule projected_bounds(1)[OF fy assms(3)])
  show "Max (fst ` applyFrame fr ` S) = frame_width fr"
    unfolding x projected_bounds(2)[OF fx assms(3)] by (simp add: fr)
  show "Max (snd ` applyFrame fr ` S) = frame_height fr"
    unfolding y projected_bounds(2)[OF fy assms(3)] by (simp add: fr)
qed

lemma ceiling_eq_iff_int: "((x::real) = of_int \<lceil>x\<rceil>) = (x \<in> \<int>)"
  by (metis Ints_cases Ints_of_int ceiling_of_int)

lemma ceiling_half: "\<lceil>1 / 2 :: real\<rceil> = 1"
  by (rule ceiling_unique) simp_all

subsection \<open>The estimator and the reader of the specification\<close>

lemma estimate_nonneg: "d \<in> set (estimate_durations tr) \<Longrightarrow> 0 \<le> d"
  by (induction tr arbitrary: d rule: estimate_durations.induct) auto

lemma estimate_length: "length (estimate_durations tr) = length tr - 1"
  by (induction tr rule: estimate_durations.induct) auto

lemma estimate_nth:
  "Suc i < length tr \<Longrightarrow>
     estimate_durations tr ! i =
       (if snd (tr ! Suc i) < snd (tr ! i) then 0 else snd (tr ! Suc i) - snd (tr ! i))"
proof (induction tr arbitrary: i rule: estimate_durations.induct)
  case (1 s1 t1 s2 t2 rest)
  then show ?case by (cases i) auto
qed simp_all

lemma reported_nth:
  "Suc i < length tr \<Longrightarrow> snd (tr ! Suc i) < snd (tr ! i) \<Longrightarrow>
     (fst (tr ! i), fst (tr ! Suc i)) \<in> set (reported_pairs tr)"
proof (induction tr arbitrary: i rule: reported_pairs.induct)
  case (1 s1 t1 s2 t2 rest)
  then show ?case by (cases i) auto
qed simp_all

lemma spec_durations_nonneg:
  "trip_durations (spec_reader feed) st nm = Some ds \<Longrightarrow> d \<in> set ds \<Longrightarrow> 0 \<le> d"
  by (auto simp add: spec_reader_def estimate_nonneg)

lemma main_durations_nonneg:
  fixes P :: "'fr Projector"
  assumes "WriteCsvStops c (Some ds) f \<in> set (effects (main (spec_reader feed) P env args))"
    and "d \<in> set ds"
  shows "0 \<le> d"
  using main_effects_cases[OF assms(1)] assms(2)
  by (auto simp add: route_events_def durations_of_def dest: spec_durations_nonneg[OF sym])

lemma same_filter:
  assumes "list_all2 same_but_times xs ys"
  shows "list_all2 same_but_times
     (filter (\<lambda>f. route_type f \<in> T) xs) (filter (\<lambda>f. route_type f \<in> T) ys)"
  using assms by (induction rule: list_all2_induct) (auto simp add: same_but_times_def)

lemma same_names:
  assumes "list_all2 same_but_times xs ys"
  shows "map route_name xs = map route_name ys"
  using assms by (induction rule: list_all2_induct) (auto simp add: same_but_times_def)

lemma same_find:
  assumes "list_all2 same_but_times xs ys"
  shows "map_option shape (find_route xs nm) = map_option shape (find_route ys nm)"
  using assms
  by (induction rule: list_all2_induct) (auto simp add: same_but_times_def find_route_def)

lemma same_resolve:
  assumes "list_all2 same_but_times feed feed'"
  shows "map_sum id fst (snd (resolve (spec_reader feed) env args
            :: ('fr, 'sc, int list) event list \<times> _)) =
         map_sum id fst (snd (resolve (spec_reader feed') env args
            :: ('fr, 'sc, int list) event list \<times> _))"
proof (cases "truthy (osm args)")
  case True
  then obtain f where f: "osm args = Some f" "f \<noteq> []"
    by (auto simp add: truthy_def split: option.splits)
  show ?thesis by (simp add: resolve_osm[OF f])
next
  case False
  let ?T = "set (route_types_of args)"
  let ?L = "filter (\<lambda>f. route_type f \<in> ?T) feed"
  let ?L' = "filter (\<lambda>f. route_type f \<in> ?T) feed'"
  have L: "list_all2 same_but_times ?L ?L'"
    by (rule same_filter[OF assms])
  have paths: "(\<lambda>nm. case find_route ?L nm of None \<Rightarrow> None | Some f \<Rightarrow> map_option fst (shape f)) =
      (\<lambda>nm. case find_route ?L' nm of None \<Rightarrow> None | Some f \<Rightarrow> map_option fst (shape f))"
  proof
    fix nm
    from same_find[OF L, of nm]
    show "(case find_route ?L nm of None \<Rightarrow> None | Some f \<Rightarrow> map_option fst (shape f)) =
      (case find_route ?L' nm of None \<Rightarrow> None | Some f \<Rightarrow> map_option fst (shape f))"
      by (auto split: option.splits)
  qed
  have stps: "(\<lambda>nm. case find_route ?L nm of None \<Rightarrow> None | Some f \<Rightarrow> map_option snd (shape f)) =
      (\<lambda>nm. case find_route ?L' nm of None \<Rightarrow> None | Some f \<Rightarrow> map_option snd (shape f))"
  proof
    fix nm
    from same_find[OF L, of nm]
    show "(case find_route ?L nm of None \<Rightarrow> None | Some f \<Rightarrow> map_option snd (shape f)) =
      (case find_route ?L' nm of None \<Rightarrow> None | Some f \<Rightarrow> map_option snd (shape f))"
      by (auto split: option.splits)
  qed
  from False show ?thesis
    by (auto simp add: resolve_def shape_routes_def spec_reader_def Let_def truthy_def
          same_names[OF L] paths stps split: option.splits sum.splits)
qed

subsection \<open>The example scenarios\<close>

lemma str_int_0: "str_int 0 = ''0''"
  by (simp add: str_int_def str_nat.simps digit_char_def)

lemma ex_resolve:
  "resolve (spec_reader ex_feed) (ex_env rs) ex_args =
     ([LoadFeed ''feeds/city.zip'' [''0'', ''1''] False, ParseRoutes ''city.osm'',
       SetRefTrips (map route_key rs)],
      Inr (rs, set_ref_trips (spec_reader ex_feed) (map route_key rs)
                 (load_feed (spec_reader ex_feed) ''feeds/city.zip'' [''0'', ''1''] False)))"
proof -
  have "osm ex_args = Some ''city.osm''" by (simp add: ex_args_def)
  from resolve_osm[OF this, of "spec_reader ex_feed" "ex_env rs"] show ?thesis
    by (simp add: ex_args_def ex_env_def route_types_of_def)
qed

lemma ex_resolve_native:
  "resolve (spec_reader ex_feed) (ex_env rs) ex_args_native =
     ([LoadFeed ''feeds/city.zip'' [''0'', ''1''] True, BuildRefTrips],
      Inr ([\<lparr>name = ''12'', nodes = [(0, 0), (4, 3)], stops = [(0, 0), (4, 3)],
              first_stop = None, last_stop = None\<rparr>],
           \<lparr>loaded = ex_feed, ref_trips = ex_feed\<rparr>))"
  by (simp add: resolve_def shape_routes_def spec_reader_def ex_args_native_def ex_args_def
        truthy_def route_types_of_def ex_feed_def find_route_def Let_def)

lemma ex_out_dir: "out_dir_of (ex_env rs) ex_args = ''/one/data/city''"
  by (simp add: out_dir_of_def ex_env_def ex_args_def scenario_of_def path_join_def DATA_DIR_def
        basename_without_ext_def basename_def splitext_root_def)

lemma ex_files:
  "nodes_file ''/one/data/city'' ''12'' = ''/one/data/city/12_nodes.wkt''"
  "stops_file ''/one/data/city'' ''12'' = ''/one/data/city/12_stops.csv''"
  "schedule_file ''/one/data/city'' ''12'' = ''/one/data/city/12_schedule.csv''"
  "nodes_file ''/one/data/city'' ''7'' = ''/one/data/city/7_nodes.wkt''"
  "stops_file ''/one/data/city'' ''7'' = ''/one/data/city/7_stops.csv''"
  "schedule_file ''/one/data/city'' ''7'' = ''/one/data/city/7_schedule.csv''"
  "stations_file ''/one/data/city'' = ''/one/data/city/stations.wkt''"
  "settings_file (ex_env rs) ex_args = ''/one/city_settings.txt''"
  by (simp_all add: nodes_file_def stops_file_def schedule_file_def stations_file_def
        settings_file_def path_join_def NODES_FILE_def STOPS_FILE_def SCHEDULE_FILE_def
        STATIONS_FILE_def ex_env_def ex_args_def scenario_of_def basename_without_ext_def
        basename_def splitext_root_def)

lemma ex_fit:
  "init_dimensions (spec_projector 1) 2 (all_points [ex_route_12, ex_route_7]) =
     Some (ex_frame, 6, 3)"
  by (simp add: spec_projector_def fitFrame_def all_points_def ex_route_12_def ex_route_7_def
        ex_frame_def Let_def)

lemma ex_fit_12x:
  "init_dimensions (spec_projector 1) 2 (all_points [ex_route_12x]) =
     Some (\<lparr>frame_offset = (0, 0), frame_scale = 1, frame_precision = 2,
             frame_width = 2, frame_height = 1\<rparr>, 2, 1)"
  by (simp add: spec_projector_def fitFrame_def all_points_def ex_route_12x_def Let_def)

lemma ex_fit_both_ways:
  "init_dimensions (spec_projector 1) 2 (all_points [ex_route_12, ex_route_12_back]) =
     Some (\<lparr>frame_offset = (0, 0), frame_scale = 1, frame_precision = 2,
             frame_width = 4, frame_height = 3\<rparr>, 4, 3)"
  by (simp add: spec_projector_def fitFrame_def all_points_def ex_route_12_def
        ex_route_12_back_def Let_def)

lemma ex_fit_half:
  "fitFrame 1 2 (all_points [ex_route_half]) = Some ex_half_frame"
  by (simp add: fitFrame_def all_points_def ex_route_half_def ex_half_frame_def Let_def
        round_to_def)

lemma ex_unmatched_tables:
  "schedule_of (spec_reader ex_feed) ex_args
     (set_ref_trips (spec_reader ex_feed) [route_key ex_route_12x]
        (load_feed (spec_reader ex_feed) ''feeds/city.zip'' [''0'', ''1''] False)) ''12'' = None"
  "durations_of (spec_reader ex_feed) ex_args
     (set_ref_trips (spec_reader ex_feed) [route_key ex_route_12x]
        (load_feed (spec_reader ex_feed) ''feeds/city.zip'' [''0'', ''1''] False)) ''12'' = None"
  by (simp_all add: schedule_of_def durations_of_def spec_reader_def ex_feed_def route_key_def
        ex_route_12x_def feed_key_def find_route_def)

section \<open>The claims\<close>

subsection \<open>C1\<close>

text \<open>
  C1: the stops of a route are points of its geometry (the invariant of a route: the
  stops are a subsequence of the nodes; \<open>main\<close> relies on it when it takes the bounds
  from the nodes, which ``include stops and way nodes''). Then in every run that resolves
  its routes the projector is fitted exactly once, before any transform, on the full set
  of points of the nodes and stops of all routes, which is known only when all routes are
  resolved; every transform (of the nodes and of the stops of each route, from which the
  station points are taken) uses the frame of that one fit. When the fit fails there is
  no transform at all.
\<close>

theorem C1_fit_once:
  fixes P :: "'fr Projector" and ev :: "('fr, 'sc, 'd) event list"
  assumes "resolve R env args = (ev, Inr (routes, g))"
    and "\<forall>r\<in>set routes. set (stops r) \<subseteq> set (nodes r)"
  shows "filter is_projector_call (effects (main R P env args)) =
           Fit 2 (\<Union>r\<in>set routes. set (nodes r) \<union> set (stops r)) #
           (case init_dimensions P 2 (\<Union>r\<in>set routes. set (nodes r) \<union> set (stops r)) of
              None \<Rightarrow> []
            | Some (fr, w, h) \<Rightarrow>
                concat (map (\<lambda>r. [Transform fr (nodes r), Transform fr (stops r)]) routes))"
proof -
  have pre: "filter is_projector_call ev = []"
    using resolve_no_projector_output(1)[OF assms(1)] .
  have full: "all_points routes = (\<Union>r\<in>set routes. set (nodes r) \<union> set (stops r))"
    using assms(2) by (auto simp add: all_points_eq)
  have "filter is_projector_call (effects (main R P env args)) =
           Fit 2 (all_points routes) #
           (case init_dimensions P 2 (all_points routes) of
              None \<Rightarrow> []
            | Some (fr, w, h) \<Rightarrow>
                concat (map (\<lambda>r. [Transform fr (nodes r), Transform fr (stops r)]) routes))"
  proof (cases "init_dimensions P 2 (all_points routes)")
    case None
    then show ?thesis
      using pre by (simp add: main_resolved[OF assms(1)] write_scenario_fail)
  next
    case (Some a)
    then obtain fr w h where fit: "init_dimensions P 2 (all_points routes) = Some (fr, w, h)"
      by (cases a) auto
    show ?thesis
      using pre
      by (simp add: main_resolved[OF assms(1)] write_scenario_ok[OF fit] fit
            filter_projector_route_events)
  qed
  then show ?thesis unfolding full .
qed

text \<open>
  Two routes whose stops are among their nodes.
\<close>

theorem C1_witness:
  "set (stops ex_route_12) \<subseteq> set (nodes ex_route_12) \<and>
   set (stops ex_route_7) \<subseteq> set (nodes ex_route_7) \<and>
   set (nodes ex_route_12) \<union> set (stops ex_route_12) \<union>
     (set (nodes ex_route_7) \<union> set (stops ex_route_7)) =
     {(0, 0), (2, 1), (4, 3), (5, 1), (6, 0)} \<and>
   filter is_projector_call
     (effects (main (spec_reader ex_feed) (spec_projector 1)
        (ex_env [ex_route_12, ex_route_7]) ex_args)) =
     [Fit 2 {(0, 0), (2, 1), (4, 3), (5, 1), (6, 0)},
      Transform ex_frame [(0, 0), (2, 1), (4, 3)], Transform ex_frame [(0, 0), (4, 3)],
      Transform ex_frame [(4, 3), (5, 1), (6, 0)], Transform ex_frame [(4, 3), (6, 0)]]"
proof -
  have pts: "(\<Union>r\<in>set [ex_route_12, ex_route_7]. set (nodes r) \<union> set (stops r)) =
      {(0, 0), (2, 1), (4, 3), (5, 1), (6, 0)}"
    by (auto simp add: ex_route_12_def ex_route_7_def)
  have fit: "init_dimensions (spec_projector 1) 2 {(0, 0), (2, 1), (4, 3), (5, 1), (6, 0)} =
      Some (ex_frame, 6, 3)"
    by (simp add: spec_projector_def fitFrame_def ex_frame_def Let_def)
  have sub: "\<forall>r\<in>set [ex_route_12, ex_route_7]. set (stops r) \<subseteq> set (nodes r)"
    by (simp add: ex_route_12_def ex_route_7_def)
  have un: "set (nodes ex_route_12) \<union> set (stops ex_route_12) \<union>
     (set (nodes ex_route_7) \<union> set (stops ex_route_7)) =
     {(0, 0), (2, 1), (4, 3), (5, 1), (6, 0)}"
    by (auto simp add: ex_route_12_def ex_route_7_def)
  from C1_fit_once[OF ex_resolve[of "[ex_route_12, ex_route_7]"] sub,
      where P = "spec_projector 1"] sub un
  show ?thesis
    unfolding pts fit by (simp add: ex_route_12_def ex_route_7_def)
qed

subsection \<open>C2\<close>

text \<open>
  C2, as the code has it: in reconciliation mode \<open>osm_routes\<close> returns every route of the
  map extract. The keys of all of them (name, first stop, last stop, number of stops) are
  handed to the feed reader, and whatever the reader makes of them, each route of the map
  extract gets its nodes, stops and schedule files and its host group, with the schedule
  and the durations the reader has under its name.
\<close>

theorem C2_map_routes_all_written:
  fixes P :: "'fr Projector"
  assumes "osm args = Some f" and "f \<noteq> []"
    and "init_dimensions P 2 (all_points (parse_routes env f)) = Some (fr, w, h)"
  shows "let rs = parse_routes env f;
             g = set_ref_trips R (map route_key rs)
                   (load_feed R (gtfs_file args) (route_types_of args) False)
         in filter is_source_call (effects (main R P env args)) =
              [LoadFeed (gtfs_file args) (route_types_of args) False, ParseRoutes f,
               SetRefTrips (map route_key rs)] \<and>
            filter is_output (effects (main R P env args)) =
              make_dir env args @
              concat (map (route_writes P fr (out_dir_of env args) (schedule_of R args g)
                             (durations_of R args g)) rs) @
              [WriteWktPoints (set (projected_stops P fr rs)) (stations_file (out_dir_of env args)),
               WriteSettings
                 \<lparr>scenario_name = scenario_of args,
                   calls = final_calls (out_dir_of env args) w h rs
                             (set (projected_stops P fr rs))\<rparr>
                 (settings_file env args)]"
  unfolding Let_def
  using main_outputs[OF resolve_osm[OF assms(1,2)] assms(3)]
  by (simp add: main_source_calls resolve_fst assms(1,2) truthy_def)

text \<open>
  C2 as stated fails for a route of the map extract that matches no route of the feed
  (three stops against two): its files are written, with its geometry and without
  durations and schedule.
\<close>

theorem C2_counterexample:
  "\<not> feed_match ex_feed ex_route_12x \<and>
   WriteWktLinestring [(0, 0), (1, 1), (2, 1)] ''/one/data/city/12_nodes.wkt'' \<in>
     set (effects (main (spec_reader ex_feed) (spec_projector 1) (ex_env [ex_route_12x]) ex_args)) \<and>
   WriteCsvStops [(0, 0), (1, 1), (2, 1)] None ''/one/data/city/12_stops.csv'' \<in>
     set (effects (main (spec_reader ex_feed) (spec_projector 1) (ex_env [ex_route_12x]) ex_args)) \<and>
   WriteCsvSchedule None ''/one/data/city/12_schedule.csv'' \<in>
     set (effects (main (spec_reader ex_feed) (spec_projector 1) (ex_env [ex_route_12x]) ex_args))"
proof -
  have nomatch: "\<not> feed_match ex_feed ex_route_12x"
    by (simp add: feed_match_def ex_feed_def feed_key_def route_key_def ex_route_12x_def)
  have tr: "transform_coords (spec_projector 1)
       \<lparr>frame_offset = (0, 0), frame_scale = 1, frame_precision = 2,
          frame_width = 2, frame_height = 1\<rparr> [(0, 0), (1, 1), (2, 1)] =
      [(0, 0), (1, 1), (2, 1)]"
    by (simp add: spec_projector_def applyFrame_def)
  have r: "name ex_route_12x = ''12''" "nodes ex_route_12x = [(0, 0), (1, 1), (2, 1)]"
    "stops ex_route_12x = [(0, 0), (1, 1), (2, 1)]"
    by (simp_all add: ex_route_12x_def)
  show ?thesis
    unfolding main_resolved[OF ex_resolve] write_scenario_ok[OF ex_fit_12x]
    using nomatch
    by (simp add: route_events_def r tr ex_out_dir ex_files ex_unmatched_tables)
qed

text \<open>
  A matched and an unmatched route: both are written, the unmatched one without
  durations and schedule.
\<close>

theorem C2_witness:
  "filter is_output
     (effects (main (spec_reader ex_feed) (spec_projector 1)
        (ex_env [ex_route_12, ex_route_7]) ex_args)) =
     [Mkdir ''/one/data/city'',
      WriteWktLinestring [(0, 0), (2, 1), (4, 3)] ''/one/data/city/12_nodes.wkt'',
      WriteCsvStops [(0, 0), (4, 3)] (Some [600]) ''/one/data/city/12_stops.csv'',
      WriteCsvSchedule (Some [21600]) ''/one/data/city/12_schedule.csv'',
      WriteWktLinestring [(4, 3), (5, 1), (6, 0)] ''/one/data/city/7_nodes.wkt'',
      WriteCsvStops [(4, 3), (6, 0)] None ''/one/data/city/7_stops.csv'',
      WriteCsvSchedule None ''/one/data/city/7_schedule.csv'',
      WriteWktPoints {(0, 0), (4, 3), (6, 0)} ''/one/data/city/stations.wkt'',
      WriteSettings
        \<lparr>scenario_name = ''city'',
          calls = final_calls ''/one/data/city'' 6 3 [ex_route_12, ex_route_7]
                    {(0, 0), (4, 3), (6, 0)}\<rparr>
        ''/one/city_settings.txt''] \<and>
   feed_match ex_feed ex_route_12 \<and>
   \<not> feed_match ex_feed ex_route_7"
proof -
  have a: "osm ex_args = Some ''city.osm''" and b: "''city.osm'' \<noteq> []"
    by (simp_all add: ex_args_def)
  have p: "parse_routes (ex_env rs) f = rs" for rs f
    by (simp add: ex_env_def)
  have c: "init_dimensions (spec_projector 1) 2
      (all_points (parse_routes (ex_env [ex_route_12, ex_route_7]) ''city.osm'')) =
      Some (ex_frame, 6, 3)"
    unfolding p by (rule ex_fit)
  have S: "set (projected_stops (spec_projector 1) ex_frame [ex_route_12, ex_route_7]) =
      {(0, 0), (4, 3), (6, 0)}"
    by (simp add: projected_stops_def spec_projector_def applyFrame_def ex_frame_def
          ex_route_12_def ex_route_7_def insert_commute)
  have sc: "scenario_of ex_args = ''city''"
    by (simp add: ex_args_def scenario_of_def basename_without_ext_def basename_def
          splitext_root_def)
  have mk: "make_dir (ex_env rs) ex_args = [Mkdir ''/one/data/city'']" for rs
    by (simp add: make_dir_def ex_out_dir) (simp add: ex_env_def)
  have w12: "route_writes (spec_projector 1) ex_frame ''/one/data/city''
      (schedule_of (spec_reader ex_feed) ex_args
         (set_ref_trips (spec_reader ex_feed) [route_key ex_route_12, route_key ex_route_7]
            (load_feed (spec_reader ex_feed) (gtfs_file ex_args) (route_types_of ex_args) False)))
      (durations_of (spec_reader ex_feed) ex_args
         (set_ref_trips (spec_reader ex_feed) [route_key ex_route_12, route_key ex_route_7]
            (load_feed (spec_reader ex_feed) (gtfs_file ex_args) (route_types_of ex_args) False)))
      ex_route_12 =
     [WriteWktLinestring [(0, 0), (2, 1), (4, 3)] ''/one/data/city/12_nodes.wkt'',
      WriteCsvStops [(0, 0), (4, 3)] (Some [600]) ''/one/data/city/12_stops.csv'',
      WriteCsvSchedule (Some [21600]) ''/one/data/city/12_schedule.csv'']"
    by (simp add: route_writes_def schedule_of_def durations_of_def spec_reader_def ex_feed_def
          route_key_def ex_route_12_def ex_route_7_def feed_key_def find_route_def ex_files
          applyFrame_def ex_frame_def ex_args_def route_types_of_def)
       (simp_all add: spec_projector_def applyFrame_def)
  have w7: "route_writes (spec_projector 1) ex_frame ''/one/data/city''
      (schedule_of (spec_reader ex_feed) ex_args
         (set_ref_trips (spec_reader ex_feed) [route_key ex_route_12, route_key ex_route_7]
            (load_feed (spec_reader ex_feed) (gtfs_file ex_args) (route_types_of ex_args) False)))
      (durations_of (spec_reader ex_feed) ex_args
         (set_ref_trips (spec_reader ex_feed) [route_key ex_route_12, route_key ex_route_7]
            (load_feed (spec_reader ex_feed) (gtfs_file ex_args) (route_types_of ex_args) False)))
      ex_route_7 =
     [WriteWktLinestring [(4, 3), (5, 1), (6, 0)] ''/one/data/city/7_nodes.wkt'',
      WriteCsvStops [(4, 3), (6, 0)] None ''/one/data/city/7_stops.csv'',
      WriteCsvSchedule None ''/one/data/city/7_schedule.csv'']"
    by (simp add: route_writes_def schedule_of_def durations_of_def spec_reader_def ex_feed_def
          route_key_def ex_route_12_def ex_route_7_def feed_key_def find_route_def ex_files
          applyFrame_def ex_frame_def ex_args_def route_types_of_def)
       (simp_all add: spec_projector_def applyFrame_def)
  have m: "feed_match ex_feed ex_route_12" "\<not> feed_match ex_feed ex_route_7"
    by (simp_all add: feed_match_def ex_feed_def feed_key_def route_key_def ex_route_12_def
          ex_route_7_def)
  from C2_map_routes_all_written[OF a b c, where R = "spec_reader ex_feed"] m
  show ?thesis
    unfolding Let_def p S sc mk ex_out_dir ex_files
    by (simp add: w12 w7)
qed

subsection \<open>C3\<close>

text \<open>
  C3, as the code has it: the two modes exclude each other, and the choice follows the
  command line, not the feed. With a map extract named on the command line (a non-empty
  \<^verbatim>\<open>--osm\<close>) the feed is loaded without shapes and the routes come from the map extract;
  without one the feed is loaded with shapes and the routes come from the shapes.
\<close>

theorem C3_mode_by_osm_argument:
  fixes P :: "'fr Projector"
  shows "filter is_source_call (effects (main R P env args)) =
     LoadFeed (gtfs_file args) (route_types_of args) (\<not> truthy (osm args)) #
     (case osm args of
        None \<Rightarrow> [BuildRefTrips]
      | Some f \<Rightarrow>
          if f = [] then [BuildRefTrips]
          else [ParseRoutes f, SetRefTrips (map route_key (parse_routes env f))])"
  by (simp add: main_source_calls resolve_fst)

text \<open>
  C3 as stated fails for a feed that has shapes when a map extract is given: the routes
  come from the map extract and the shapes are not even loaded.
\<close>

theorem C3_counterexample:
  "feed_has_shapes ex_feed \<and>
   BuildRefTrips \<notin>
     set (effects (main (spec_reader ex_feed) (spec_projector 1) (ex_env [ex_route_12]) ex_args)) \<and>
   ParseRoutes ''city.osm'' \<in>
     set (effects (main (spec_reader ex_feed) (spec_projector 1) (ex_env [ex_route_12]) ex_args)) \<and>
   LoadFeed ''feeds/city.zip'' [''0'', ''1''] False \<in>
     set (effects (main (spec_reader ex_feed) (spec_projector 1) (ex_env [ex_route_12]) ex_args))"
proof -
  have fit: "init_dimensions (spec_projector 1) 2 (all_points [ex_route_12]) =
     Some (\<lparr>frame_offset = (0, 0), frame_scale = 1, frame_precision = 2,
             frame_width = 4, frame_height = 3\<rparr>, 4, 3)"
    by (simp add: spec_projector_def fitFrame_def all_points_def ex_route_12_def Let_def)
  show ?thesis
    unfolding main_resolved[OF ex_resolve] write_scenario_ok[OF fit]
    by (simp add: make_dir_def route_events_def feed_has_shapes_def ex_feed_def)
qed

text \<open>
  The calls of the example in both modes: with the map extract on the command line, and
  without it, when the route is taken from the shape of the feed.
\<close>

theorem C3_witness:
  "filter is_source_call
     (effects (main (spec_reader ex_feed) (spec_projector 1) (ex_env [ex_route_12]) ex_args)) =
     [LoadFeed ''feeds/city.zip'' [''0'', ''1''] False, ParseRoutes ''city.osm'',
      SetRefTrips [(''12'', Some ''A'', Some ''Z'', 2)]] \<and>
   filter is_source_call
     (effects (main (spec_reader ex_feed) (spec_projector 1) (ex_env [ex_route_12])
        ex_args_native)) =
     [LoadFeed ''feeds/city.zip'' [''0'', ''1''] True, BuildRefTrips] \<and>
   written_files
     (effects (main (spec_reader ex_feed) (spec_projector 1) (ex_env [ex_route_12])
        ex_args_native)) =
     [''/one/data/city/12_nodes.wkt'', ''/one/data/city/12_stops.csv'',
      ''/one/data/city/12_schedule.csv'',
      ''/one/data/city/stations.wkt'', ''/one/city_settings.txt'']"
proof -
  have fit: "init_dimensions (spec_projector 1) 2
      (all_points [\<lparr>name = ''12'', nodes = [(0, 0), (4, 3)], stops = [(0, 0), (4, 3)],
              first_stop = None, last_stop = None\<rparr>]) =
     Some (\<lparr>frame_offset = (0, 0), frame_scale = 1, frame_precision = 2,
             frame_width = 4, frame_height = 3\<rparr>, 4, 3)"
    by (simp add: spec_projector_def fitFrame_def all_points_def Let_def)
  have od: "out_dir_of (ex_env rs) ex_args_native = ''/one/data/city''" for rs
    using ex_out_dir[of rs] by (simp add: out_dir_of_def scenario_of_def ex_args_native_def)
  have sf: "settings_file (ex_env rs) ex_args_native = ''/one/city_settings.txt''" for rs
    using ex_files(8)[of rs] by (simp add: settings_file_def scenario_of_def ex_args_native_def)
  have wf: "written_files
     (effects (main (spec_reader ex_feed) (spec_projector 1) (ex_env [ex_route_12])
        ex_args_native)) =
     [''/one/data/city/12_nodes.wkt'', ''/one/data/city/12_stops.csv'',
      ''/one/data/city/12_schedule.csv'',
      ''/one/data/city/stations.wkt'', ''/one/city_settings.txt'']"
    unfolding main_written_files[OF ex_resolve_native fit] od sf
    by (simp add: route_files_def ex_files)
  from C3_mode_by_osm_argument[of "spec_reader ex_feed" "spec_projector 1" "ex_env [ex_route_12]"
      ex_args]
    C3_mode_by_osm_argument[of "spec_reader ex_feed" "spec_projector 1" "ex_env [ex_route_12]"
      ex_args_native] wf
  show ?thesis
    by (simp add: ex_args_native_def ex_args_def ex_env_def truthy_def route_types_of_def
        route_key_def ex_route_12_def)
qed

subsection \<open>C5\<close>

text \<open>
  C5, for the duration estimator of the specification: every duration is non-negative and
  there is one per consecutive pair of stops; a pair with a smaller second timestamp has
  duration zero and is reported, any other pair has the difference of its timestamps. The
  estimator has no failing case. In a run on the reader of the specification every
  duration table handed to the stops writer is non-negative, and whether the run fails
  does not depend on the timestamps of the feed.
\<close>

theorem C5_durations_nonnegative:
  fixes P :: "'fr Projector" and feed feed' :: "'sc FeedRoute list"
  assumes "list_all2 same_but_times feed feed'"
  shows "(\<forall>d\<in>set (estimate_durations tr). 0 \<le> d) \<and>
         length (estimate_durations tr) = length tr - 1 \<and>
         (\<forall>i. Suc i < length tr \<longrightarrow>
            estimate_durations tr ! i =
              (if snd (tr ! Suc i) < snd (tr ! i) then 0 else snd (tr ! Suc i) - snd (tr ! i)) \<and>
            (snd (tr ! Suc i) < snd (tr ! i) \<longrightarrow>
               (fst (tr ! i), fst (tr ! Suc i)) \<in> set (reported_pairs tr))) \<and>
         (\<forall>c ds f. WriteCsvStops c (Some ds) f \<in>
              set (effects (main (spec_reader feed) P env args)) \<longrightarrow>
            (\<forall>d\<in>set ds. 0 \<le> d)) \<and>
         failure (main (spec_reader feed) P env args) =
           failure (main (spec_reader feed') P env args)"
proof -
  have a: "\<forall>d\<in>set (estimate_durations tr). 0 \<le> d"
    using estimate_nonneg by blast
  have b: "\<forall>i. Suc i < length tr \<longrightarrow>
            estimate_durations tr ! i =
              (if snd (tr ! Suc i) < snd (tr ! i) then 0 else snd (tr ! Suc i) - snd (tr ! i)) \<and>
            (snd (tr ! Suc i) < snd (tr ! i) \<longrightarrow>
               (fst (tr ! i), fst (tr ! Suc i)) \<in> set (reported_pairs tr))"
    using estimate_nth reported_nth by blast
  have c: "\<forall>c ds f. WriteCsvStops c (Some ds) f \<in>
              set (effects (main (spec_reader feed) P env args)) \<longrightarrow>
            (\<forall>d\<in>set ds. 0 \<le> d)"
    using main_durations_nonneg by blast
  have d: "failure (main (spec_reader feed) P env args) =
           failure (main (spec_reader feed') P env args)"
    by (simp only: main_failure same_resolve[OF assms])
  from a b c d show ?thesis
    by (simp only: estimate_length)
qed

text \<open>
  A trip that arrives 600 seconds before it leaves: duration zero, reported, and the run
  succeeds as it does with the trip in order.
\<close>

theorem C5_witness:
  "list_all2 same_but_times ex_feed_late ex_feed \<and>
   estimate_durations [(''A'', 600), (''Z'', 0)] = [0] \<and>
   reported_pairs [(''A'', 600), (''Z'', 0)] = [(''A'', ''Z'')] \<and>
   failure (main (spec_reader ex_feed_late) (spec_projector 1) (ex_env [ex_route_12]) ex_args) =
     failure (main (spec_reader ex_feed) (spec_projector 1) (ex_env [ex_route_12]) ex_args) \<and>
   failure (main (spec_reader ex_feed) (spec_projector 1) (ex_env [ex_route_12]) ex_args) = None"
proof -
  have rel: "list_all2 same_but_times ex_feed_late ex_feed"
    by (simp add: same_but_times_def ex_feed_late_def ex_feed_def)
  have fit: "init_dimensions (spec_projector 1) 2 (all_points [ex_route_12]) =
     Some (\<lparr>frame_offset = (0, 0), frame_scale = 1, frame_precision = 2,
             frame_width = 4, frame_height = 3\<rparr>, 4, 3)"
    by (simp add: spec_projector_def fitFrame_def all_points_def ex_route_12_def Let_def)
  have ok: "failure (main (spec_reader ex_feed) (spec_projector 1) (ex_env [ex_route_12]) ex_args) =
      None"
    unfolding main_resolved[OF ex_resolve] write_scenario_ok[OF fit] by simp
  from C5_durations_nonnegative[OF rel, of "[(''A'', 600), (''Z'', 0)]" "spec_projector 1"
      "ex_env [ex_route_12]" ex_args] rel ok
  show ?thesis by simp
qed

subsection \<open>C6\<close>

text \<open>
  C6, for the projector of the specification with a positive scale: over the projected
  points of the fitted set (the nodes of all routes) the least x and the least y are
  exactly 0 and the greatest x and y are the width and height of the frame; the world
  size written to the settings is the pair of their ceilings, so every projected point
  of the fitted set lies in the world rectangle. The greatest projected x (or y) equals
  the rounded-up width (or height) only when that width (or height) is a whole number.
\<close>

theorem C6_projection_bounds:
  fixes ev :: "(ProjectionFrame, 'sc, 'd) event list"
  assumes "resolve R env args = (ev, Inr (routes, g))"
    and "fitFrame k 2 (all_points routes) = Some fr"
    and "0 < k"
  shows "let S = applyFrame fr ` all_points routes
         in Min (fst ` S) = 0 \<and> Min (snd ` S) = 0 \<and>
            Max (fst ` S) = frame_width fr \<and> Max (snd ` S) = frame_height fr \<and>
            (\<forall>q\<in>S. 0 \<le> fst q \<and> fst q \<le> of_int \<lceil>frame_width fr\<rceil> \<and>
                   0 \<le> snd q \<and> snd q \<le> of_int \<lceil>frame_height fr\<rceil>) \<and>
            (Max (fst ` S) = of_int \<lceil>frame_width fr\<rceil>) = (frame_width fr \<in> \<int>) \<and>
            (Max (snd ` S) = of_int \<lceil>frame_height fr\<rceil>) = (frame_height fr \<in> \<int>) \<and>
            map (\<lambda>s. option_values ''MovementModel.worldSize'' (calls s))
              (written_settings (effects (main R (spec_projector k) env args))) =
              [[str_int \<lceil>frame_width fr\<rceil> @ '', '' @ str_int \<lceil>frame_height fr\<rceil>]]"
proof -
  let ?S = "applyFrame fr ` all_points routes"
  have k: "0 \<le> k" using assms(3) by simp
  note b = fitFrame_bounds[OF finite_all_points assms(2) k]
  from assms(2) have ne: "all_points routes \<noteq> {}" by (auto simp add: fitFrame_def)
  have fin: "finite (fst ` ?S)" "finite (snd ` ?S)"
    using finite_all_points by simp_all
  have inside: "0 \<le> fst q \<and> fst q \<le> of_int \<lceil>frame_width fr\<rceil> \<and>
      0 \<le> snd q \<and> snd q \<le> of_int \<lceil>frame_height fr\<rceil>" if "q \<in> ?S" for q
  proof -
    from that have qx: "fst q \<in> fst ` ?S" and qy: "snd q \<in> snd ` ?S" by simp_all
    have "Min (fst ` ?S) \<le> fst q" "fst q \<le> Max (fst ` ?S)"
      using fin(1) qx by simp_all
    moreover have "Min (snd ` ?S) \<le> snd q" "snd q \<le> Max (snd ` ?S)"
      using fin(2) qy by simp_all
    moreover have "frame_width fr \<le> of_int \<lceil>frame_width fr\<rceil>"
      "frame_height fr \<le> of_int \<lceil>frame_height fr\<rceil>"
      by simp_all
    ultimately show ?thesis unfolding b by linarith
  qed
  have fit: "init_dimensions (spec_projector k) 2 (all_points routes) =
      Some (fr, frame_width fr, frame_height fr)"
    using assms(2) by (simp add: spec_projector_def)
  have ws: "map (\<lambda>s. option_values ''MovementModel.worldSize'' (calls s))
      (written_settings (effects (main R (spec_projector k) env args))) =
      [[str_int \<lceil>frame_width fr\<rceil> @ '', '' @ str_int \<lceil>frame_height fr\<rceil>]]"
    using no_settings_in_resolve(1)[OF assms(1)]
    by (simp add: main_resolved[OF assms(1)] write_scenario_ok[OF fit] final_calls_def
          world_size_def)
  show ?thesis
    unfolding Let_def using b inside ws ceiling_eq_iff_int by auto
qed

text \<open>
  C6 as stated fails when the bounding width is not a whole number: the greatest
  projected x is one half, the rounded-up width and the world size are 1.
\<close>

theorem C6_counterexample:
  "fitFrame 1 2 (all_points [ex_route_half]) = Some ex_half_frame \<and>
   Max (fst ` applyFrame ex_half_frame ` all_points [ex_route_half]) = 1 / 2 \<and>
   \<lceil>frame_width ex_half_frame\<rceil> = 1 \<and>
   Max (fst ` applyFrame ex_half_frame ` all_points [ex_route_half]) \<noteq>
     of_int \<lceil>frame_width ex_half_frame\<rceil> \<and>
   map (\<lambda>s. option_values ''MovementModel.worldSize'' (calls s))
     (written_settings (effects (main (spec_reader ex_feed) (spec_projector 1)
        (ex_env [ex_route_half]) ex_args))) = [[''1, 1'']]"
proof -
  have pts: "all_points [ex_route_half] = {(0, 0), (1 / 2, 1 / 2)}"
    by (simp add: all_points_def ex_route_half_def insert_commute)
  have img: "fst ` applyFrame ex_half_frame ` {(0, 0), (1 / 2, 1 / 2)} = {0, 1 / 2}"
    by (simp add: applyFrame_def ex_half_frame_def round_to_def)
  have mx: "Max {0, 1 / 2 :: real} = 1 / 2" by simp
  have w: "\<lceil>frame_width ex_half_frame\<rceil> = 1" "\<lceil>frame_height ex_half_frame\<rceil> = 1"
    by (simp_all add: ex_half_frame_def ceiling_half)
  have fit: "init_dimensions (spec_projector 1) 2 (all_points [ex_route_half]) =
      Some (ex_half_frame, 1 / 2, 1 / 2)"
    using ex_fit_half by (simp add: spec_projector_def ex_half_frame_def)
  have c: "\<lceil>1 / 2 :: real\<rceil> = 1" by (rule ceiling_half)
  have ws: "map (\<lambda>s. option_values ''MovementModel.worldSize'' (calls s))
     (written_settings (effects (main (spec_reader ex_feed) (spec_projector 1)
        (ex_env [ex_route_half]) ex_args))) = [[''1, 1'']]"
    unfolding main_resolved[OF ex_resolve] write_scenario_ok[OF fit]
    by (simp add: final_calls_def world_size_def c str_int_def str_nat.simps digit_char_def
          route_events_def)
  show ?thesis
    using ex_fit_half ws unfolding pts img mx w by simp
qed

text \<open>
  The two routes of the example: width 6, height 3.
\<close>

theorem C6_witness:
  "fitFrame 1 2 (all_points [ex_route_12, ex_route_7]) = Some ex_frame \<and>
   Min (fst ` applyFrame ex_frame ` all_points [ex_route_12, ex_route_7]) = 0 \<and>
   Min (snd ` applyFrame ex_frame ` all_points [ex_route_12, ex_route_7]) = 0 \<and>
   Max (fst ` applyFrame ex_frame ` all_points [ex_route_12, ex_route_7]) = 6 \<and>
   Max (snd ` applyFrame ex_frame ` all_points [ex_route_12, ex_route_7]) = 3 \<and>
   map (\<lambda>s. option_values ''MovementModel.worldSize'' (calls s))
     (written_settings (effects (main (spec_reader ex_feed) (spec_projector 1)
        (ex_env [ex_route_12, ex_route_7]) ex_args))) = [[''6, 3'']]"
proof -
  have fit: "fitFrame 1 2 (all_points [ex_route_12, ex_route_7]) = Some ex_frame"
    using ex_fit by (auto simp add: spec_projector_def)
  have k: "(0::real) < 1" by simp
  have w: "frame_width ex_frame = 6" "frame_height ex_frame = 3"
    by (simp_all add: ex_frame_def)
  have s: "str_int 6 = ''6''" "str_int 3 = ''3''"
    by (simp_all add: str_int_def str_nat.simps digit_char_def)
  from C6_projection_bounds[OF ex_resolve fit k] fit show ?thesis
    unfolding Let_def w by (simp add: s)
qed

subsection \<open>C7\<close>

text \<open>
  C7: \<open>main\<close> has no check of its own for an empty scenario; what stops the run is the
  projector. When no route is resolved, or the routes have no node, the point set handed
  to the projector is empty. A projector that refuses the empty point set, as the one of
  the specification does, makes the run fail at the fit, which comes before the output
  directory is made and before any file is written.
\<close>

theorem C7_no_partial_output:
  fixes P :: "'fr Projector" and ev :: "('fr, 'sc, 'd) event list"
  assumes "resolve R env args = (ev, Inr (routes, g))"
    and "routes = [] \<or> all_points routes = {}"
    and "init_dimensions P 2 {} = None"
  shows "failure (main R P env args) = Some ProjectionError \<and>
         filter is_output (effects (main R P env args)) = [] \<and>
         init_dimensions (spec_projector k) 2 {} = None"
proof -
  have "all_points routes = {}"
    using assms(2) by (auto simp add: all_points_def)
  then have "init_dimensions P 2 (all_points routes) = None"
    using assms(3) by simp
  then have "failure (main R P env args) = Some ProjectionError \<and>
         filter is_output (effects (main R P env args)) = []"
    using resolve_no_projector_output(2)[OF assms(1)]
    by (simp add: main_resolved[OF assms(1)] write_scenario_fail)
  moreover have "init_dimensions (spec_projector k) 2 {} = None"
    by (simp add: spec_projector_def fitFrame_def)
  ultimately show ?thesis by simp
qed

text \<open>
  A map extract without routes, with the projector of the specification.
\<close>

theorem C7_witness:
  "init_dimensions (spec_projector 1) 2 {} = None \<and>
   failure (main (spec_reader ex_feed) (spec_projector 1) (ex_env []) ex_args) =
     Some ProjectionError \<and>
   effects (main (spec_reader ex_feed) (spec_projector 1) (ex_env []) ex_args) =
     [LoadFeed ''feeds/city.zip'' [''0'', ''1''] False, ParseRoutes ''city.osm'',
      SetRefTrips [], Fit 2 {}] \<and>
   filter is_output
     (effects (main (spec_reader ex_feed) (spec_projector 1) (ex_env []) ex_args)) = []"
proof -
  have refuse: "init_dimensions (spec_projector 1) 2 {} = None"
    by (simp add: spec_projector_def fitFrame_def)
  have fail: "init_dimensions (spec_projector 1) 2 (all_points []) = None"
    using refuse by (simp add: all_points_def)
  have eff: "effects (main (spec_reader ex_feed) (spec_projector 1) (ex_env []) ex_args) =
     [LoadFeed ''feeds/city.zip'' [''0'', ''1''] False, ParseRoutes ''city.osm'',
      SetRefTrips [], Fit 2 {}]"
    by (simp add: main_resolved[OF ex_resolve] write_scenario_fail[OF fail] all_points_def)
  have none: "([] :: TransitRoute list) = [] \<or> all_points ([] :: TransitRoute list) = {}"
    by simp
  from C7_no_partial_output[OF ex_resolve[of "[]"] none refuse] eff refuse show ?thesis
    by simp
qed

subsection \<open>C8\<close>

text \<open>
  C8, as the code has it, for an output directory without braces (so that the names are
  what \<^verbatim>\<open>str.format\<close> gives): each route in the final list has its nodes, stops and
  schedule files written once, followed by one stations file and one settings file. The
  name of a route file is the output directory, the name of the route and the ending of
  its kind. Two routes have the same files exactly when they have the same name; a route
  file never coincides with a file of another kind, with the stations file or with the
  settings file. So when the names of the routes are pairwise distinct every file is
  written exactly once.
\<close>

theorem C8_route_files:
  fixes P :: "'fr Projector" and ev :: "('fr, 'sc, 'd) event list"
  assumes "resolve R env args = (ev, Inr (routes, g))"
    and "init_dimensions P 2 (all_points routes) = Some (fr, w, h)"
    and "brace_free (out_dir_of env args)"
  shows "written_files (effects (main R P env args)) =
           concat (map (route_files (out_dir_of env args)) routes) @
           [stations_file (out_dir_of env args), settings_file env args] \<and>
         (\<forall>r\<in>set routes.
            route_files (out_dir_of env args) r =
              [dir_prefix (out_dir_of env args) @ name r @ ''_nodes.wkt'',
               dir_prefix (out_dir_of env args) @ name r @ ''_stops.csv'',
               dir_prefix (out_dir_of env args) @ name r @ ''_schedule.csv'']) \<and>
         stations_file (out_dir_of env args) =
           dir_prefix (out_dir_of env args) @ ''stations.wkt'' \<and>
         (\<forall>r\<in>set routes. \<forall>r'\<in>set routes.
            (route_files (out_dir_of env args) r = route_files (out_dir_of env args) r') =
            (name r = name r')) \<and>
         (distinct (map name routes) \<longrightarrow>
            distinct (written_files (effects (main R P env args)))) \<and>
         count_list (written_files (effects (main R P env args)))
           (stations_file (out_dir_of env args)) = 1 \<and>
         count_list (written_files (effects (main R P env args))) (settings_file env args) = 1"
proof -
  let ?od = "out_dir_of env args"
  let ?rf = "concat (map (route_files ?od) routes)"
  have wf: "written_files (effects (main R P env args)) =
      ?rf @ [stations_file ?od, settings_file env args]"
    by (rule main_written_files[OF assms(1,2)])
  have names: "route_files ?od r =
      [dir_prefix ?od @ name r @ ''_nodes.wkt'', dir_prefix ?od @ name r @ ''_stops.csv'',
       dir_prefix ?od @ name r @ ''_schedule.csv'']" for r
    by (simp add: route_files_def plain_names[OF assms(3)])
  have st: "stations_file ?od = dir_prefix ?od @ ''stations.wkt''"
    by (rule plain_names(4)[OF assms(3)])
  have d: "distinct (?rf @ [stations_file ?od, settings_file env args])"
    if "distinct (map name routes)"
    using all_route_files_distinct[OF that, of ?od] shared_not_route kinds_differ(10)
    by simp
  have c0: "count_list ?rf (stations_file ?od) = 0" "count_list ?rf (settings_file env args) = 0"
    using shared_not_route by (simp_all add: count_list_0_iff)
  have c1: "count_list (?rf @ [stations_file ?od, settings_file env args]) (stations_file ?od) = 1"
    "count_list (?rf @ [stations_file ?od, settings_file env args]) (settings_file env args) = 1"
    using c0 kinds_differ(10) kinds_differ(10)[symmetric] by auto
  have eq: "\<forall>r\<in>set routes. \<forall>r'\<in>set routes.
      (route_files ?od r = route_files ?od r') = (name r = name r')"
    using route_files_eq by blast
  show ?thesis
    unfolding wf using names st d c1 eq by blast
qed

text \<open>
  C8 as stated fails when two routes share their name, as the two directions of a line
  do here, in an output directory without braces: both are written to the same three
  files.
\<close>

theorem C8_counterexample:
  "brace_free (out_dir_of (ex_env [ex_route_12, ex_route_12_back]) ex_args) \<and>
   name ex_route_12 = name ex_route_12_back \<and>
   ex_route_12 \<noteq> ex_route_12_back \<and>
   count_list
     (written_files (effects (main (spec_reader ex_feed) (spec_projector 1)
        (ex_env [ex_route_12, ex_route_12_back]) ex_args)))
     ''/one/data/city/12_nodes.wkt'' = 2 \<and>
   written_files (effects (main (spec_reader ex_feed) (spec_projector 1)
        (ex_env [ex_route_12, ex_route_12_back]) ex_args)) =
     [''/one/data/city/12_nodes.wkt'', ''/one/data/city/12_stops.csv'',
      ''/one/data/city/12_schedule.csv'',
      ''/one/data/city/12_nodes.wkt'', ''/one/data/city/12_stops.csv'',
      ''/one/data/city/12_schedule.csv'',
      ''/one/data/city/stations.wkt'', ''/one/city_settings.txt'']"
proof -
  have wf: "written_files (effects (main (spec_reader ex_feed) (spec_projector 1)
        (ex_env [ex_route_12, ex_route_12_back]) ex_args)) =
     [''/one/data/city/12_nodes.wkt'', ''/one/data/city/12_stops.csv'',
      ''/one/data/city/12_schedule.csv'',
      ''/one/data/city/12_nodes.wkt'', ''/one/data/city/12_stops.csv'',
      ''/one/data/city/12_schedule.csv'',
      ''/one/data/city/stations.wkt'', ''/one/city_settings.txt'']"
    unfolding main_written_files[OF ex_resolve ex_fit_both_ways] ex_out_dir
    by (simp add: route_files_def ex_route_12_def ex_route_12_back_def ex_files)
  have bf: "brace_free (out_dir_of (ex_env [ex_route_12, ex_route_12_back]) ex_args)"
    unfolding ex_out_dir by (simp add: brace_free_def)
  show ?thesis
    unfolding wf using bf by (simp add: ex_route_12_def ex_route_12_back_def)
qed

text \<open>
  Two routes with different names.
\<close>

theorem C8_witness:
  "brace_free (out_dir_of (ex_env [ex_route_12, ex_route_7]) ex_args) \<and>
   distinct (map name [ex_route_12, ex_route_7]) \<and>
   written_files (effects (main (spec_reader ex_feed) (spec_projector 1)
        (ex_env [ex_route_12, ex_route_7]) ex_args)) =
     [''/one/data/city/12_nodes.wkt'', ''/one/data/city/12_stops.csv'',
      ''/one/data/city/12_schedule.csv'',
      ''/one/data/city/7_nodes.wkt'', ''/one/data/city/7_stops.csv'',
      ''/one/data/city/7_schedule.csv'',
      ''/one/data/city/stations.wkt'', ''/one/city_settings.txt''] \<and>
   distinct (written_files (effects (main (spec_reader ex_feed) (spec_projector 1)
        (ex_env [ex_route_12, ex_route_7]) ex_args)))"
proof -
  have bf: "brace_free (out_dir_of (ex_env [ex_route_12, ex_route_7]) ex_args)"
    unfolding ex_out_dir by (simp add: brace_free_def)
  have n: "distinct (map name [ex_route_12, ex_route_7])"
    by (simp add: ex_route_12_def ex_route_7_def)
  have rf: "route_files ''/one/data/city'' ex_route_12 =
      [''/one/data/city/12_nodes.wkt'', ''/one/data/city/12_stops.csv'',
       ''/one/data/city/12_schedule.csv'']"
    "route_files ''/one/data/city'' ex_route_7 =
      [''/one/data/city/7_nodes.wkt'', ''/one/data/city/7_stops.csv'',
       ''/one/data/city/7_schedule.csv'']"
    by (simp_all add: route_files_def ex_route_12_def ex_route_7_def ex_files)
  from C8_route_files[OF ex_resolve ex_fit bf] n bf show ?thesis
    unfolding ex_out_dir by (simp add: rf ex_files)
qed

subsection \<open>C9\<close>

text \<open>
  C9: the host address range written to the settings starts at 0 and ends at the number
  of routes times the hosts per route, plus the number of distinct station points, minus
  one. The groups of the written settings are those of the routes, each with
  \<open>NR_OF_HOSTS = 1\<close> hosts, and the station group with one host per distinct station
  point, so the range spans exactly the hosts of the groups.
\<close>

theorem C9_host_range:
  fixes P :: "'fr Projector" and ev :: "('fr, 'sc, 'd) event list"
  assumes "resolve R env args = (ev, Inr (routes, g))"
    and "init_dimensions P 2 (all_points routes) = Some (fr, w, h)"
  shows "let S = set (projected_stops P fr routes);
             cs = final_calls (out_dir_of env args) w h routes S
         in written_settings (effects (main R P env args)) =
              [\<lparr>scenario_name = scenario_of args, calls = cs\<rparr>] \<and>
            map nrof_hosts (groups_of cs) =
              replicate (length routes) NR_OF_HOSTS @ [int (card S)] \<and>
            NR_OF_HOSTS = 1 \<and>
            sum_list (map nrof_hosts (groups_of cs)) =
              int (length routes) * NR_OF_HOSTS + int (card S) \<and>
            option_values ''Events1.hosts'' cs =
              [''0,'' @ str_int (int (length routes) * NR_OF_HOSTS + int (card S) - 1)]"
proof -
  have run: "written_settings (effects (main R P env args)) =
      [\<lparr>scenario_name = scenario_of args,
        calls = final_calls (out_dir_of env args) w h routes (set (projected_stops P fr routes))\<rparr>]"
    using no_settings_in_resolve(1)[OF assms(1)]
    by (simp add: main_resolved[OF assms(1)] write_scenario_ok[OF assms(2)])
  have groups: "map nrof_hosts (groups_of (final_calls od w h routes S)) =
      replicate (length routes) NR_OF_HOSTS @ [int (card S)]" for od S
    by (simp add: final_calls_def comp_def map_replicate_const)
  have total: "sum_list (replicate n NR_OF_HOSTS @ [int c]) = int n * NR_OF_HOSTS + int c"
    for n c
    by (simp add: sum_list_replicate)
  have range: "option_values ''Events1.hosts'' (final_calls od w h routes S) =
      [''0,'' @ str_int (int (length routes) * NR_OF_HOSTS + int (card S) - 1)]" for od S
    by (simp add: final_calls_def hosts_range_def str_int_0)
  show ?thesis
    unfolding Let_def using run groups total range by (simp add: NR_OF_HOSTS_def)
qed

text \<open>Two routes that share one of their stops: five hosts, addresses 0 to 4.\<close>

theorem C9_witness:
  "option_values ''Events1.hosts''
     (final_calls (out_dir_of (ex_env [ex_route_12, ex_route_7]) ex_args) 6 3
        [ex_route_12, ex_route_7]
        (set (projected_stops (spec_projector 1) ex_frame [ex_route_12, ex_route_7]))) =
   [''0,4'']"
proof -
  have S: "set (projected_stops (spec_projector 1) ex_frame [ex_route_12, ex_route_7]) =
      {(0, 0), (4, 3), (6, 0)}"
    by (simp add: projected_stops_def spec_projector_def applyFrame_def ex_frame_def
          ex_route_12_def ex_route_7_def insert_commute)
  have c: "card {(0, 0), (4, 3), (6, 0 :: real) :: point} = 3" by simp
  from C9_host_range[OF ex_resolve ex_fit] show ?thesis
    unfolding Let_def S c by (simp add: NR_OF_HOSTS_def str_int_def str_nat.simps digit_char_def)
qed

subsection \<open>C10\<close>

text \<open>
  C10: the station points are a set of projected stop coordinates. The stations file is
  written once, with the set of the projected stops of all routes; the stationary group of
  the written settings declares as many hosts as there are distinct projected stop
  coordinates, however many stops of however many routes project to the same point.
\<close>

theorem C10_stations:
  fixes P :: "'fr Projector" and ev :: "('fr, 'sc, 'd) event list"
  assumes "resolve R env args = (ev, Inr (routes, g))"
    and "init_dimensions P 2 (all_points routes) = Some (fr, w, h)"
  shows "let S = set (projected_stops P fr routes);
             cs = final_calls (out_dir_of env args) w h routes S
         in written_points (effects (main R P env args)) =
              [(S, stations_file (out_dir_of env args))] \<and>
            written_settings (effects (main R P env args)) =
              [\<lparr>scenario_name = scenario_of args, calls = cs\<rparr>] \<and>
            groups_of cs =
              map (\<lambda>r. route_group (out_dir_of env args) (name r)) routes @
              [station_group (out_dir_of env args) S] \<and>
            nrof_hosts (station_group (out_dir_of env args) S) =
              int (length (remdups (projected_stops P fr routes))) \<and>
            card S \<le> length (projected_stops P fr routes) \<and>
            (card S = length (projected_stops P fr routes)) =
              distinct (projected_stops P fr routes)"
proof -
  have run: "written_points (effects (main R P env args)) =
      [(set (projected_stops P fr routes), stations_file (out_dir_of env args))]"
    using no_settings_in_resolve(2)[OF assms(1)]
    by (simp add: main_resolved[OF assms(1)] write_scenario_ok[OF assms(2)])
  have sets: "written_settings (effects (main R P env args)) =
      [\<lparr>scenario_name = scenario_of args,
        calls = final_calls (out_dir_of env args) w h routes (set (projected_stops P fr routes))\<rparr>]"
    using no_settings_in_resolve(1)[OF assms(1)]
    by (simp add: main_resolved[OF assms(1)] write_scenario_ok[OF assms(2)])
  have groups: "groups_of (final_calls od w h routes S) =
      map (\<lambda>r. route_group od (name r)) routes @ [station_group od S]" for od S
    by (simp add: final_calls_def)
  have count: "int (card (set xs)) = int (length (remdups xs))" for xs :: "point list"
    by (simp add: length_remdups_card_conv)
  have le: "card (set xs) \<le> length xs" for xs :: "point list"
    by (rule card_length)
  have eq: "(card (set xs) = length xs) = distinct xs" for xs :: "point list"
    using card_distinct distinct_card by blast
  show ?thesis
    unfolding Let_def using run sets groups count le eq by simp
qed

text \<open>
  Two routes that share a stop: four stops, three stations.
\<close>

theorem C10_witness:
  "written_points (effects (main (spec_reader ex_feed) (spec_projector 1)
      (ex_env [ex_route_12, ex_route_7]) ex_args)) =
     [({(0, 0), (4, 3), (6, 0)}, ''/one/data/city/stations.wkt'')] \<and>
   length (projected_stops (spec_projector 1) ex_frame [ex_route_12, ex_route_7]) = 4 \<and>
   nrof_hosts (station_group ''/one/data/city'' {(0, 0), (4, 3), (6, 0)}) = 3"
proof -
  have S: "set (projected_stops (spec_projector 1) ex_frame [ex_route_12, ex_route_7]) =
      {(0, 0), (4, 3), (6, 0)}"
    by (simp add: projected_stops_def spec_projector_def applyFrame_def ex_frame_def
          ex_route_12_def ex_route_7_def insert_commute)
  have od: "out_dir_of (ex_env rs) ex_args = ''/one/data/city''" for rs
    by (simp add: out_dir_of_def ex_env_def ex_args_def scenario_of_def path_join_def DATA_DIR_def
          basename_without_ext_def basename_def splitext_root_def)
  have sf: "stations_file ''/one/data/city'' = ''/one/data/city/stations.wkt''"
    by (simp add: stations_file_def path_join_def STATIONS_FILE_def)
  have len: "length (projected_stops (spec_projector 1) ex_frame [ex_route_12, ex_route_7]) = 4"
    by (simp add: projected_stops_def spec_projector_def ex_route_12_def ex_route_7_def)
  from C10_stations[OF ex_resolve ex_fit] show ?thesis
    unfolding Let_def S od sf len by simp
qed

end
